theory Spec2Isabelle
  imports Main "HOL-Library.Sublist"
begin

section \<open>JavaScript values\<close>

text \<open>
  The components are written in TypeScript and run on Node.js. A value typed \<open>string\<close>
  there may still be \<open>undefined\<close> or \<open>null\<close>; the two print differently when they are
  concatenated to a string, so the model keeps them apart for the strings that are
  concatenated (the table name). Where the code only tests a value against \<open>null\<close> with
  \<open>==\<close> (which \<open>undefined\<close> passes as well), an \<open>option\<close> is used and \<open>None\<close> stands for
  both.
\<close>

datatype jsstring = Undefined | Null | Str string

text \<open>String concatenation \<open>"..." + v\<close> of a possibly missing string.\<close>

fun to_string :: "jsstring \<Rightarrow> string" where
  "to_string Undefined = ''undefined''"
| "to_string Null = ''null''"
| "to_string (Str s) = s"

text \<open>Column values and statement parameters. Numbers are the integers.\<close>

datatype jsval = JUndefined | JNull | JBool bool | JNum int | JStr string

fun truthy :: "jsval \<Rightarrow> bool" where
  "truthy JUndefined = False"
| "truthy JNull = False"
| "truthy (JBool b) = b"
| "truthy (JNum n) = (n \<noteq> 0)"
| "truthy (JStr s) = (s \<noteq> [])"

text \<open>\<open>v == null\<close>: true of \<open>null\<close> and of \<open>undefined\<close>.\<close>

fun is_null :: "jsval \<Rightarrow> bool" where
  "is_null JUndefined = True"
| "is_null JNull = True"
| "is_null _ = False"

text \<open>
  A plain object: its own enumerable properties in the order in which \<open>Object.keys\<close>,
  \<open>for ... in\<close> and lodash's \<open>_.keys\<close> and \<open>_.values\<close> traverse them. Rows have no inherited
  enumerable properties.
\<close>

type_synonym row = "(string \<times> jsval) list"

definition get_prop :: "row \<Rightarrow> string \<Rightarrow> jsval" where
  "get_prop r k = (case map_of r k of None \<Rightarrow> JUndefined | Some v \<Rightarrow> v)"

text \<open>\<open>r[k] = v\<close>: an existing property keeps its place, a new one goes last.\<close>

fun set_prop :: "row \<Rightarrow> string \<Rightarrow> jsval \<Rightarrow> row" where
  "set_prop [] k v = [(k, v)]"
| "set_prop ((k', v') # r) k v =
     (if k' = k then (k, v) # r else (k', v') # set_prop r k v)"

text \<open>A JavaScript array or a plain object, as the list generators accept either.\<close>

datatype 'a js_values = Array "'a list" | Object row

text \<open>\<open>!_.isArray(values) ? _.keys(values) : values\<close>\<close>

fun keys_or_array :: "string js_values \<Rightarrow> string list" where
  "keys_or_array (Array xs) = xs"
| "keys_or_array (Object r) = map fst r"

text \<open>\<open>s.indexOf(pat)\<close>: the first position where \<open>pat\<close> occurs in \<open>s\<close>, or \<open>-1\<close>.\<close>

fun indexOf_from :: "string \<Rightarrow> string \<Rightarrow> int \<Rightarrow> int" where
  "indexOf_from [] pat i = (if pat = [] then i else - 1)"
| "indexOf_from (c # cs) pat i =
     (if prefix pat (c # cs) then i else indexOf_from cs pat (i + 1))"

definition indexOf :: "string \<Rightarrow> string \<Rightarrow> int" where
  "indexOf s pat = indexOf_from s pat 0"

text \<open>
  \<open>"..." + n\<close> for a number \<open>n\<close>: an integer prints in decimal, a negative one after a
  minus sign. This is the text JavaScript gives for the integers of fewer than \<open>22\<close>
  digits; from \<open>10^21\<close> on it prints a mantissa and an exponent (\<open>1e+21\<close>), which this
  function does not follow, so the statements built here are those of the code for the
  page sizes and offsets below \<open>10^21\<close>.
\<close>

definition digit :: "nat \<Rightarrow> char" where
  "digit d = ''0123456789'' ! d"

function decimal :: "nat \<Rightarrow> string" where
  "decimal n = (if n < 10 then [digit n] else decimal (n div 10) @ [digit (n mod 10)])"
  by pat_completeness auto
termination
  by (relation "measure id") auto

definition number_to_string :: "int \<Rightarrow> string" where
  "number_to_string i = (if 0 \<le> i then decimal (nat i) else CHR ''-'' # decimal (nat (- i)))"

text \<open>\<open>Array.prototype.join\<close>, the meaning of "joined by commas".\<close>

fun join :: "string \<Rightarrow> string list \<Rightarrow> string" where
  "join sep [] = []"
| "join sep [x] = x"
| "join sep (x # y # ys) = x @ sep @ join sep (y # ys)"

section \<open>Errors and callbacks\<close>

text \<open>
  The exceptions of the component framework are made from a code and a message (and a
  correlation id, which only labels them and is left out). The third argument of
  \<open>ConnectionException\<close> is the error that \<open>withCause\<close> was called with, if it was called;
  what the framework keeps of that error is its own matter. \<open>Error\<close> is any other error
  object (of the driver, of the external resolvers, or \<open>new Error(...)\<close>) with its
  \<open>message\<close>, which may be missing.
\<close>

datatype error =
    Error "string option"
  | ConfigException string string
  | ConnectionException string string "error option"
  | InvalidStateException string string
  | TypeError string

fun message :: "error \<Rightarrow> string option" where
  "message (Error m) = m"
| "message (ConfigException c m) = Some m"
| "message (ConnectionException c m cause) = Some m"
| "message (InvalidStateException c m) = Some m"
| "message (TypeError m) = Some m"

text \<open>
  What the caller of an asynchronous method observes: its callback invoked with
  \<open>(err, result)\<close>, nothing at all (no callback was passed and the method checks), or an
  exception thrown.
\<close>

datatype 'a outcome = Callback "error option" 'a | NoCallback | Throws error

section \<open>SqliteConnectionResolver\<close>

text \<open>
  A resolved \<open>ConnectionParams\<close>. It is a \<open>StringValueMap\<close> of the component framework,
  whose \<open>get(key)\<close> is \<open>this[key] || null\<close>; the resolver reads it through \<open>getUri()\<close> and
  \<open>getAsNullableString("database")\<close>, which both go through \<open>get\<close>. So a parameter that
  is stored as the empty string reads as \<open>null\<close>, like one that is not stored at all,
  and neither getter ever gives the empty string.
\<close>

record connection_params =
  uri_param :: "string option"
  database_param :: "string option"

definition get_param :: "string option \<Rightarrow> string option" where
  "get_param stored = (case stored of Some s \<Rightarrow> if s \<noteq> [] then Some s else None | None \<Rightarrow> None)"

definition getUri :: "connection_params \<Rightarrow> string option" where
  "getUri c = get_param (uri_param c)"

definition getDatabase :: "connection_params \<Rightarrow> string option" where
  "getDatabase c = get_param (database_param c)"

record credential_params =
  getUsername :: "string option"
  getPassword :: "string option"

text \<open>The object \<open>composeConfig\<close> builds; \<open>None\<close> is a \<open>database\<close> field never assigned.\<close>

record sqlite_config =
  database :: "string option"

text \<open>
  The two resolvers of the component framework are not part of this library. A configured
  \<open>SqliteConnectionResolver\<close> is modelled by what they hand to their callbacks:
  \<open>resolveAll\<close> gives \<open>(err, result)\<close> with the connections, \<open>lookup\<close> gives
  \<open>(err, result)\<close> with the credential.
\<close>

record resolver =
  resolveAll :: "error option \<times> connection_params list option"
  lookup :: "error option \<times> credential_params option"

definition validateConnection :: "connection_params \<Rightarrow> error option" where
  "validateConnection connection =
     (case getUri connection of
        Some uri \<Rightarrow>
          (if \<not> prefix ''file://'' uri
           then Some (ConfigException ''WRONG_PROTOCOL'' ''Connection protocol must be file://'')
           else None)
      | None \<Rightarrow>
          (case getDatabase connection of
             None \<Rightarrow> Some (ConfigException ''NO_DATABASE'' ''Connection database is not set'')
           | Some name \<Rightarrow> None))"

text \<open>The loop of \<open>validateConnections\<close>: the first error ends it.\<close>

fun validateEach :: "connection_params list \<Rightarrow> error option" where
  "validateEach [] = None"
| "validateEach (connection # connections) =
     (case validateConnection connection of
        Some error \<Rightarrow> Some error
      | None \<Rightarrow> validateEach connections)"

definition validateConnections :: "connection_params list option \<Rightarrow> error option" where
  "validateConnections connections =
     (case connections of
        None \<Rightarrow> Some (ConfigException ''NO_CONNECTION'' ''Database connection is not set'')
      | Some cs \<Rightarrow>
          (if length cs = 0
           then Some (ConfigException ''NO_CONNECTION'' ''Database connection is not set'')
           else validateEach cs))"

text \<open>
  One round of the loop of \<open>composeConfig\<close>: \<open>if (uri)\<close> and \<open>if (database)\<close> test for a
  string that is neither missing nor empty; \<open>uri.substring(7)\<close> drops \<open>file://\<close>.
\<close>

definition composeStep :: "connection_params \<Rightarrow> sqlite_config \<Rightarrow> sqlite_config" where
  "composeStep connection config =
     (let config1 =
            (case getUri connection of
               Some uri \<Rightarrow> if uri \<noteq> [] then config\<lparr>database := Some (drop 7 uri)\<rparr> else config
             | None \<Rightarrow> config)
      in (case getDatabase connection of
            Some name \<Rightarrow>
              if name \<noteq> [] then config1\<lparr>database := Some name\<rparr> else config1
          | None \<Rightarrow> config1))"

definition composeConfig ::
  "connection_params list \<Rightarrow> credential_params option \<Rightarrow> sqlite_config" where
  "composeConfig connections credential = fold composeStep connections \<lparr>database = None\<rparr>"

text \<open>
  \<open>resolve\<close> starts both lookups with \<open>async.parallel\<close>, whose final callback receives the
  first error reported; the model takes the two tasks in the order in which they are
  listed. The connections are validated only when their lookup reported no error. The
  result is what \<open>resolve\<close> passes to its callback: \<open>(err, null)\<close> or \<open>(null, config)\<close>.
\<close>

definition resolve :: "resolver \<Rightarrow> error + sqlite_config" where
  "resolve r =
     (let (err1, connections) = resolveAll r;
          err1' = (if err1 = None then validateConnections connections else err1);
          (err2, credential) = lookup r
      in case err1' of
           Some err \<Rightarrow> Inl err
         | None \<Rightarrow>
             (case err2 of
                Some err \<Rightarrow> Inl err
              | None \<Rightarrow>
                  (case connections of
                     Some cs \<Rightarrow> Inr (composeConfig cs credential)
                   | None \<Rightarrow> Inl (TypeError ''connections is not iterable''))))"

section \<open>The driver\<close>

text \<open>
  The native SQLite binding is outside the library. It is a parameter of the model: a
  record of functions over a state \<open>'w\<close> of the world the driver lives in (the database
  files among it) and the handles \<open>'h\<close> it hands out. Each function returns what the
  driver passes to the callback of the call, and the world after it.
\<close>

datatype 'h db_open = Opened 'h | OpenFailed error | OpenThrew error

record ('w, 'h) driver =
  new_Database :: "string option \<Rightarrow> 'w \<Rightarrow> 'h db_open \<times> 'w"
  db_close :: "'h \<Rightarrow> 'w \<Rightarrow> error option \<times> 'w"
  db_all :: "'h \<Rightarrow> string \<Rightarrow> jsval list \<Rightarrow> 'w \<Rightarrow> (error option \<times> row list option) \<times> 'w"
  db_get :: "'h \<Rightarrow> string \<Rightarrow> jsval list \<Rightarrow> 'w \<Rightarrow> (error option \<times> row option) \<times> 'w"
  db_run :: "'h \<Rightarrow> string \<Rightarrow> jsval list \<Rightarrow> 'w \<Rightarrow> error option \<times> 'w"
  db_exec :: "'h \<Rightarrow> string \<Rightarrow> 'w \<Rightarrow> error option \<times> 'w"

text \<open>
  The calls made to the driver are recorded, in the order in which they are made; a
  statement sent without parameters is recorded with the empty list of parameters.
\<close>

datatype 'h call =
    DbConnect "string option"
  | DbClose 'h
  | DbAll 'h string "jsval list"
  | DbGet 'h string "jsval list"
  | DbRun 'h string "jsval list"
  | DbExec 'h string

record ('w, 'h) env =
  world :: 'w
  issued :: "'h call list"

definition client_connect ::
  "('w, 'h) driver \<Rightarrow> string option \<Rightarrow> ('w, 'h) env \<Rightarrow> 'h db_open \<times> ('w, 'h) env" where
  "client_connect drv file e =
     (let (r, w) = new_Database drv file (world e)
      in (r, \<lparr>world = w, issued = issued e @ [DbConnect file]\<rparr>))"

definition client_close ::
  "('w, 'h) driver \<Rightarrow> 'h \<Rightarrow> ('w, 'h) env \<Rightarrow> error option \<times> ('w, 'h) env" where
  "client_close drv h e =
     (let (r, w) = db_close drv h (world e)
      in (r, \<lparr>world = w, issued = issued e @ [DbClose h]\<rparr>))"

definition client_all ::
  "('w, 'h) driver \<Rightarrow> 'h \<Rightarrow> string \<Rightarrow> jsval list \<Rightarrow> ('w, 'h) env
     \<Rightarrow> (error option \<times> row list option) \<times> ('w, 'h) env" where
  "client_all drv h query params e =
     (let (r, w) = db_all drv h query params (world e)
      in (r, \<lparr>world = w, issued = issued e @ [DbAll h query params]\<rparr>))"

definition client_get ::
  "('w, 'h) driver \<Rightarrow> 'h \<Rightarrow> string \<Rightarrow> jsval list \<Rightarrow> ('w, 'h) env
     \<Rightarrow> (error option \<times> row option) \<times> ('w, 'h) env" where
  "client_get drv h query params e =
     (let (r, w) = db_get drv h query params (world e)
      in (r, \<lparr>world = w, issued = issued e @ [DbGet h query params]\<rparr>))"

definition client_run ::
  "('w, 'h) driver \<Rightarrow> 'h \<Rightarrow> string \<Rightarrow> jsval list \<Rightarrow> ('w, 'h) env
     \<Rightarrow> error option \<times> ('w, 'h) env" where
  "client_run drv h query params e =
     (let (r, w) = db_run drv h query params (world e)
      in (r, \<lparr>world = w, issued = issued e @ [DbRun h query params]\<rparr>))"

definition client_exec ::
  "('w, 'h) driver \<Rightarrow> 'h \<Rightarrow> string \<Rightarrow> ('w, 'h) env \<Rightarrow> error option \<times> ('w, 'h) env" where
  "client_exec drv h query e =
     (let (r, w) = db_exec drv h query (world e)
      in (r, \<lparr>world = w, issued = issued e @ [DbExec h query]\<rparr>))"

section \<open>SqliteConnection\<close>

text \<open>
  The component holds the resolver it was configured with, the driver's handle
  (\<open>_connection\<close>) and the database name. \<open>configure\<close> passes the configuration to the
  resolver; the model passes what the resolver will deliver under it.
\<close>

record 'h sqlite_connection =
  connectionResolver :: resolver
  connection_handle :: "'h option"
  connection_databaseName :: "string option"

text \<open>A resolver that was given no configuration finds no connection and no credential.\<close>

definition unconfigured :: resolver where
  "unconfigured = \<lparr>resolveAll = (None, Some []), lookup = (None, None)\<rparr>"

definition new_SqliteConnection :: "'h sqlite_connection" where
  "new_SqliteConnection =
     \<lparr>connectionResolver = unconfigured, connection_handle = None,
      connection_databaseName = None\<rparr>"

definition SqliteConnection_configure ::
  "resolver \<Rightarrow> 'h sqlite_connection \<Rightarrow> 'h sqlite_connection" where
  "SqliteConnection_configure config c = c\<lparr>connectionResolver := config\<rparr>"

definition SqliteConnection_isOpen :: "'h sqlite_connection \<Rightarrow> bool" where
  "SqliteConnection_isOpen c = (connection_handle c \<noteq> None)"

definition getConnection :: "'h sqlite_connection \<Rightarrow> 'h option" where
  "getConnection c = connection_handle c"

definition getDatabaseName :: "'h sqlite_connection \<Rightarrow> string option" where
  "getDatabaseName c = connection_databaseName c"

text \<open>
  \<open>open\<close>. \<open>has_callback\<close> tells whether a callback was passed. An error of the resolver
  goes to the callback (or to the logger); \<open>new sqlite.Database\<close> either throws, which
  the \<open>catch\<close> turns into a call of the callback that is not guarded, or reports to its
  own callback, where only success stores the handle and the name.
\<close>

definition SqliteConnection_open ::
  "('w, 'h) driver \<Rightarrow> bool \<Rightarrow> 'h sqlite_connection \<Rightarrow> ('w, 'h) env
     \<Rightarrow> unit outcome \<times> 'h sqlite_connection \<times> ('w, 'h) env" where
  "SqliteConnection_open drv has_callback c e =
     (case resolve (connectionResolver c) of
        Inl err \<Rightarrow> (if has_callback then Callback (Some err) () else NoCallback, c, e)
      | Inr config \<Rightarrow>
          (case client_connect drv (database config) e of
             (OpenThrew ex, e') \<Rightarrow>
               (if has_callback
                then Callback (Some (ConnectionException ''CONNECT_FAILED''
                                       ''Connection to sqlite failed'' (Some ex))) ()
                else Throws (TypeError ''callback is not a function''), c, e')
           | (OpenFailed err, e') \<Rightarrow>
               (if has_callback
                then Callback (Some (ConnectionException ''CONNECT_FAILED''
                                       ''Connection to sqlite failed'' (Some err))) ()
                else NoCallback, c, e')
           | (Opened db, e') \<Rightarrow>
               (if has_callback then Callback None () else NoCallback,
                c\<lparr>connection_handle := Some db, connection_databaseName := database config\<rparr>,
                e')))"

definition SqliteConnection_close ::
  "('w, 'h) driver \<Rightarrow> bool \<Rightarrow> 'h sqlite_connection \<Rightarrow> ('w, 'h) env
     \<Rightarrow> unit outcome \<times> 'h sqlite_connection \<times> ('w, 'h) env" where
  "SqliteConnection_close drv has_callback c e =
     (case connection_handle c of
        None \<Rightarrow> (if has_callback then Callback None () else NoCallback, c, e)
      | Some db \<Rightarrow>
          (let (err, e') = client_close drv db e;
               err' = (case err of
                         Some cause \<Rightarrow>
                           Some (ConnectionException ''DISCONNECT_FAILED''
                                   ''Disconnect from sqlite failed: '' (Some cause))
                       | None \<Rightarrow> None)
           in (if has_callback then Callback err' () else NoCallback,
               c\<lparr>connection_handle := None, connection_databaseName := None\<rparr>,
               e')))"

text \<open>A sequence of calls on one connection component.\<close>

datatype connection_call = Configure resolver | Open bool | Close bool

fun SqliteConnection_call ::
  "('w, 'h) driver \<Rightarrow> connection_call \<Rightarrow> 'h sqlite_connection \<times> ('w, 'h) env
     \<Rightarrow> 'h sqlite_connection \<times> ('w, 'h) env" where
  "SqliteConnection_call drv (Configure config) (c, e) = (SqliteConnection_configure config c, e)"
| "SqliteConnection_call drv (Open cb) (c, e) = snd (SqliteConnection_open drv cb c e)"
| "SqliteConnection_call drv (Close cb) (c, e) = snd (SqliteConnection_close drv cb c e)"

definition SqliteConnection_calls ::
  "('w, 'h) driver \<Rightarrow> connection_call list \<Rightarrow> 'h sqlite_connection \<times> ('w, 'h) env
     \<Rightarrow> 'h sqlite_connection \<times> ('w, 'h) env" where
  "SqliteConnection_calls drv calls s = fold (SqliteConnection_call drv) calls s"

text \<open>The invariant of the connection component: no database name without a handle.\<close>

definition name_needs_handle :: "'h sqlite_connection \<Rightarrow> bool" where
  "name_needs_handle c = (connection_databaseName c \<noteq> None \<longrightarrow> connection_handle c \<noteq> None)"

section \<open>SqlitePersistence\<close>

subsection \<open>Building statements\<close>

definition dquote :: char where
  "dquote = CHR 0x22"

fun quoteIdentifier :: "jsstring \<Rightarrow> jsstring" where
  "quoteIdentifier Undefined = Undefined"
| "quoteIdentifier Null = Null"
| "quoteIdentifier (Str v) =
     (if v = [] then Str v
      else if hd v = dquote then Str v
      else Str ([dquote] @ v @ [dquote]))"

text \<open>
  The three list generators run the same loop: \<open>if (result != "") result += ","\<close>, then
  the next term is appended.
\<close>

definition generateColumns :: "string js_values \<Rightarrow> string" where
  "generateColumns values =
     fold (\<lambda>v result.
             (if result \<noteq> [] then result @ '','' else result) @ to_string (quoteIdentifier (Str v)))
          (keys_or_array values) []"

fun generateParameters :: "'a js_values \<Rightarrow> string" where
  "generateParameters (Array xs) =
     fold (\<lambda>v result. (if result \<noteq> [] then result @ '','' else result) @ ''?'') xs []"
| "generateParameters (Object r) =
     fold (\<lambda>v result. (if result \<noteq> [] then result @ '','' else result) @ ''?'') (map fst r) []"

definition generateSetParameters :: "row \<Rightarrow> string" where
  "generateSetParameters values =
     fold (\<lambda>column result.
             (if result \<noteq> [] then result @ '','' else result)
               @ to_string (quoteIdentifier (Str column)) @ ''=?'')
          (map fst values) []"

definition generateValues :: "row \<Rightarrow> jsval list" where
  "generateValues values = map snd values"

definition convertToPublic :: "row \<Rightarrow> row" where
  "convertToPublic v = v"

definition convertFromPublic :: "row \<Rightarrow> row" where
  "convertFromPublic v = v"

subsection \<open>The component and its configuration\<close>

text \<open>
  The configuration as \<open>configure\<close> reads it: the \<open>collection\<close> and \<open>table\<close> names, the
  option \<open>options.max_page_size\<close> after the framework's integer conversion (absent, not a
  number, or a number), and the connection sections as the resolver will resolve them.
\<close>

datatype 'a setting = Absent | Invalid | Given 'a

record config_params =
  param_collection :: "string option"
  param_table :: "string option"
  param_max_page_size :: "int setting"
  param_connection :: resolver

record 'h sqlite_persistence =
  config :: "config_params option"
  opened :: bool
  localConnection :: bool
  schemaStatements :: "string list"
  connection :: "'h sqlite_connection option"
  client :: "'h option"
  databaseName :: "string option"
  tableName :: jsstring
  maxPageSize :: int

definition new_SqlitePersistence :: "jsstring \<Rightarrow> 'h sqlite_persistence" where
  "new_SqlitePersistence table =
     \<lparr>config = None, opened = False, localConnection = False, schemaStatements = [],
      connection = None, client = None, databaseName = None, tableName = table,
      maxPageSize = 100\<rparr>"

text \<open>
  \<open>configure\<close> first completes the configuration with the defaults, among them
  \<open>options.max_page_size = 100\<close> (the default of \<open>collection\<close> is \<open>null\<close>); a value that is
  not a number falls back to the current page size. The configuration is a
  \<open>StringValueMap\<close> as well: \<open>getAsStringWithDefault\<close> gives the default, here the current
  table name, for a name stored as the empty string.
\<close>

definition configure :: "config_params \<Rightarrow> 'h sqlite_persistence \<Rightarrow> 'h sqlite_persistence" where
  "configure cfg p =
     (let table1 = (case get_param (param_collection cfg) of
                      Some c \<Rightarrow> Str c | None \<Rightarrow> tableName p);
          table2 = (case get_param (param_table cfg) of Some t \<Rightarrow> Str t | None \<Rightarrow> table1)
      in p\<lparr>config := Some cfg,
           tableName := table2,
           maxPageSize :=
             (case param_max_page_size cfg of
                Given n \<Rightarrow> n
              | Absent \<Rightarrow> 100
              | Invalid \<Rightarrow> maxPageSize p)\<rparr>)"

definition createConnection :: "'h sqlite_persistence \<Rightarrow> 'h sqlite_connection" where
  "createConnection p =
     (case config p of
        Some cfg \<Rightarrow> SqliteConnection_configure (param_connection cfg) new_SqliteConnection
      | None \<Rightarrow> new_SqliteConnection)"

text \<open>\<open>setReferences\<close>, given the connection component the references hold, if any.\<close>

definition setReferences ::
  "'h sqlite_connection option \<Rightarrow> 'h sqlite_persistence \<Rightarrow> 'h sqlite_persistence" where
  "setReferences shared p =
     (case shared of
        None \<Rightarrow> p\<lparr>connection := Some (createConnection p), localConnection := True\<rparr>
      | Some c \<Rightarrow> p\<lparr>connection := Some c, localConnection := False\<rparr>)"

definition ensureSchema :: "string \<Rightarrow> 'h sqlite_persistence \<Rightarrow> 'h sqlite_persistence" where
  "ensureSchema schemaStatement p = p\<lparr>schemaStatements := schemaStatements p @ [schemaStatement]\<rparr>"

definition autoCreateObject :: "string \<Rightarrow> 'h sqlite_persistence \<Rightarrow> 'h sqlite_persistence" where
  "autoCreateObject schemaStatement p = ensureSchema schemaStatement p"

definition clearSchema :: "'h sqlite_persistence \<Rightarrow> 'h sqlite_persistence" where
  "clearSchema p = p\<lparr>schemaStatements := []\<rparr>"

definition defineSchema :: "'h sqlite_persistence \<Rightarrow> 'h sqlite_persistence" where
  "defineSchema p = p"

record index_options =
  unique :: bool
  index_type :: "string option"

definition ensureIndex ::
  "jsstring \<Rightarrow> row \<Rightarrow> index_options option \<Rightarrow> 'h sqlite_persistence \<Rightarrow> 'h sqlite_persistence" where
  "ensureIndex name keys options p =
     (let opts = (case options of Some opts \<Rightarrow> opts | None \<Rightarrow> \<lparr>unique = False, index_type = None\<rparr>);
          builder1 = ''CREATE'' @ (if unique opts then '' UNIQUE'' else []);
          builder2 = builder1 @ '' INDEX IF NOT EXISTS '' @ to_string (quoteIdentifier name)
                       @ '' ON '' @ to_string (quoteIdentifier (tableName p));
          builder3 = builder2 @
            (case index_type opts of Some t \<Rightarrow> if t \<noteq> [] then '' '' @ t else [] | None \<Rightarrow> []);
          fields = fold (\<lambda>(key, asc) fields.
                           (if fields \<noteq> [] then fields @ '', '' else fields)
                             @ to_string (quoteIdentifier (Str key))
                             @ (if \<not> truthy asc then '' DESC'' else []))
                        keys []
      in autoCreateObject (builder3 @ ''('' @ fields @ '')'') p)"

subsection \<open>Opening\<close>

text \<open>\<open>async.eachSeries\<close> over the statements: one \<open>exec\<close> after the other, until one fails.\<close>

fun execEach ::
  "('w, 'h) driver \<Rightarrow> 'h \<Rightarrow> string list \<Rightarrow> ('w, 'h) env \<Rightarrow> error option \<times> ('w, 'h) env" where
  "execEach drv h [] e = (None, e)"
| "execEach drv h (dml # rest) e =
     (case client_exec drv h dml e of
        (Some err, e') \<Rightarrow> (Some err, e')
      | (None, e') \<Rightarrow> execEach drv h rest e')"

definition no_such_table :: "error \<Rightarrow> bool" where
  "no_such_table err =
     (case message err of None \<Rightarrow> False | Some m \<Rightarrow> \<not> indexOf m ''no such table'' < 0)"

text \<open>
  \<open>createSchema\<close> (release 3.1.0), with the error it passes to its callback. Reading
  \<open>this._client\<close> when it is \<open>null\<close> throws.
\<close>

definition createSchema ::
  "('w, 'h) driver \<Rightarrow> 'h sqlite_persistence \<Rightarrow> ('w, 'h) env \<Rightarrow> unit outcome \<times> ('w, 'h) env" where
  "createSchema drv p e =
     (if length (schemaStatements p) = 0 then (Callback None (), e)
      else
        (case client p of
           None \<Rightarrow> (Throws (TypeError ''Cannot read property get of null''), e)
         | Some h \<Rightarrow>
             (let query = ''SELECT * FROM '' @ to_string (quoteIdentifier (tableName p)) @ '' LIMIT 1''
              in case client_get drv h query [] e of
                   ((None, result), e') \<Rightarrow> (Callback None (), e')
                 | ((Some err, result), e') \<Rightarrow>
                     (if \<not> no_such_table err then (Callback (Some err) (), e')
                      else (let (err', e'') = execEach drv h (schemaStatements p) e'
                            in (Callback err' (), e''))))))"

text \<open>
  \<open>autoCreateObjects\<close>, the same step in release 3.0.0: the statements are those of
  \<open>_autoObjects\<close> and the probe puts the table name between single quotes.
\<close>

definition autoCreateObjects ::
  "('w, 'h) driver \<Rightarrow> 'h sqlite_persistence \<Rightarrow> ('w, 'h) env \<Rightarrow> unit outcome \<times> ('w, 'h) env" where
  "autoCreateObjects drv p e =
     (if length (schemaStatements p) = 0 then (Callback None (), e)
      else
        (case client p of
           None \<Rightarrow> (Throws (TypeError ''Cannot read property get of null''), e)
         | Some h \<Rightarrow>
             (let query = ''SELECT * FROM '' @ [CHR 0x27] @ to_string (tableName p) @ [CHR 0x27]
                            @ '' LIMIT 1''
              in case client_get drv h query [] e of
                   ((None, result), e') \<Rightarrow> (Callback None (), e')
                 | ((Some err, result), e') \<Rightarrow>
                     (if \<not> no_such_table err then (Callback (Some err) (), e')
                      else (let (err', e'') = execEach drv h (schemaStatements p) e'
                            in (Callback err' (), e''))))))"

text \<open>
  The continuation \<open>openCurl\<close> of \<open>open\<close>, called with the error of opening the connection
  (or with \<open>null\<close> for a shared connection).
\<close>

definition openCurl ::
  "('w, 'h) driver \<Rightarrow> bool \<Rightarrow> error option \<Rightarrow> 'h sqlite_persistence \<Rightarrow> ('w, 'h) env
     \<Rightarrow> unit outcome \<times> 'h sqlite_persistence \<times> ('w, 'h) env" where
  "openCurl drv has_callback err p e =
     (let err1 = (if err = None \<and> connection p = None
                  then Some (InvalidStateException ''NO_CONNECTION'' ''SQLite connection is missing'')
                  else err);
          err2 = (case connection p of
                    Some c \<Rightarrow>
                      if err1 = None \<and> \<not> SqliteConnection_isOpen c
                      then Some (ConnectionException ''CONNECT_FAILED''
                                   ''SQLite connection is not opened'' None)
                      else err1
                  | None \<Rightarrow> err1);
          p1 = p\<lparr>opened := False\<rparr>
      in case err2 of
           Some err' \<Rightarrow> (if has_callback then Callback (Some err') () else NoCallback, p1, e)
         | None \<Rightarrow>
             (let p2 = (case connection p1 of
                          Some c \<Rightarrow> p1\<lparr>client := getConnection c, databaseName := getDatabaseName c\<rparr>
                        | None \<Rightarrow> p1);
                  p3 = defineSchema p2
              in case createSchema drv p3 e of
                   (Callback (Some cause) u, e') \<Rightarrow>
                     (if has_callback
                      then Callback (Some (ConnectionException ''CONNECT_FAILED''
                                             ''Connection to sqlite failed'' (Some cause))) ()
                      else NoCallback, p3, e')
                 | (Callback None u, e') \<Rightarrow>
                     (if has_callback then Callback None () else NoCallback,
                      p3\<lparr>opened := True\<rparr>, e')
                 | (other, e') \<Rightarrow> (other, p3, e')))"

text \<open>
  \<open>open\<close>. A component that is already opened calls its callback without looking whether
  there is one. A local connection is opened first, with \<open>openCurl\<close> as its callback.
\<close>

definition SqlitePersistence_open ::
  "('w, 'h) driver \<Rightarrow> bool \<Rightarrow> 'h sqlite_persistence \<Rightarrow> ('w, 'h) env
     \<Rightarrow> unit outcome \<times> 'h sqlite_persistence \<times> ('w, 'h) env" where
  "SqlitePersistence_open drv has_callback p e =
     (if opened p
      then (if has_callback then Callback None () else Throws (TypeError ''callback is not a function''),
            p, e)
      else
        (let p1 = (if connection p = None
                   then p\<lparr>connection := Some (createConnection p), localConnection := True\<rparr>
                   else p)
         in if localConnection p1
            then (case connection p1 of
                    None \<Rightarrow> (Throws (TypeError ''Cannot read property open of null''), p1, e)
                  | Some c \<Rightarrow>
                      (case SqliteConnection_open drv True c e of
                         (Callback err u, c', e') \<Rightarrow>
                           openCurl drv has_callback err (p1\<lparr>connection := Some c'\<rparr>) e'
                       | (other, c', e') \<Rightarrow> (other, p1\<lparr>connection := Some c'\<rparr>, e')))
            else openCurl drv has_callback None p1 e))"

text \<open>
  The component as \<open>open\<close> has set it up when it calls \<open>createSchema\<close>: it has the
  connection, which is a local one if it was so before or if \<open>open\<close> had to create it.
\<close>

definition connected ::
  "'h sqlite_persistence \<Rightarrow> 'h sqlite_connection \<Rightarrow> 'h sqlite_persistence" where
  "connected p c =
     p\<lparr>opened := False, localConnection := (localConnection p \<or> connection p = None),
       connection := Some c, client := getConnection c, databaseName := getDatabaseName c\<rparr>"

subsection \<open>Queries by filter\<close>

text \<open>
  \<open>PagingParams\<close> and \<open>DataPage\<close> belong to the component framework. The paging parameters
  are read through \<open>getSkip\<close>, \<open>getTake\<close> and the field \<open>total\<close> only, so they are
  modelled by these three; \<open>new PagingParams()\<close> has neither skip nor take, so that both
  methods return their argument, and its \<open>total\<close> is \<open>false\<close>.
\<close>

record paging_params =
  getSkip :: "int \<Rightarrow> int"
  getTake :: "int \<Rightarrow> int"
  paging_total :: bool

definition new_PagingParams :: paging_params where
  "new_PagingParams = \<lparr>getSkip = (\<lambda>minSkip. minSkip), getTake = (\<lambda>maxTake. maxTake),
                        paging_total = False\<rparr>"

record data_page =
  page_data :: "row list"
  page_total :: "int option"

text \<open>\<open>select && !_.isEmpty(select) ? select : "*"\<close>\<close>

definition select_or_star :: "string option \<Rightarrow> string" where
  "select_or_star select = (case select of Some s \<Rightarrow> if s \<noteq> [] then s else ''*'' | None \<Rightarrow> ''*'')"

text \<open>
  \<open>if (filter && filter != "") query += " WHERE " + filter\<close>, and the same for the order.
  Filters, orders and projections are the strings that the child classes build. The
  count inside \<open>getPageByFilter\<close> tests \<open>filter != null && filter != ""\<close>, which is the same
  test on a string.
\<close>

definition where_clause :: "string option \<Rightarrow> string" where
  "where_clause filter' = (case filter' of Some f \<Rightarrow> if f \<noteq> [] then '' WHERE '' @ f else [] | None \<Rightarrow> [])"

definition order_clause :: "string option \<Rightarrow> string" where
  "order_clause sort' = (case sort' of Some s \<Rightarrow> if s \<noteq> [] then '' ORDER BY '' @ s else [] | None \<Rightarrow> [])"

text \<open>\<open>_.map(items, this.convertToPublic)\<close>; of no array it is the empty array.\<close>

definition map_items :: "row list option \<Rightarrow> row list" where
  "map_items items = (case items of Some rows \<Rightarrow> map convertToPublic rows | None \<Rightarrow> [])"

text \<open>
  \<open>result ? LongConverter.toLong(result.count) : 0\<close>; the converter \<open>toLong\<close> of the
  framework is a parameter.
\<close>

definition count_of :: "(jsval \<Rightarrow> int) \<Rightarrow> row option \<Rightarrow> int" where
  "count_of toLong result = (case result of Some r \<Rightarrow> toLong (get_prop r ''count'') | None \<Rightarrow> 0)"

definition no_client :: error where
  "no_client = TypeError ''Cannot read property of null (this._client)''"

text \<open>
  The methods that query by filter are protected and are always given a callback. The
  outcome is the call of that callback.
\<close>

definition getPageByFilter ::
  "('w, 'h) driver \<Rightarrow> (jsval \<Rightarrow> int) \<Rightarrow> 'h sqlite_persistence \<Rightarrow> string option
     \<Rightarrow> paging_params option \<Rightarrow> string option \<Rightarrow> string option \<Rightarrow> ('w, 'h) env
     \<Rightarrow> data_page option outcome \<times> ('w, 'h) env" where
  "getPageByFilter drv toLong p filter' paging sort' select e =
     (let query0 = ''SELECT '' @ select_or_star select @ '' FROM ''
                     @ to_string (quoteIdentifier (tableName p));
          paging1 = (case paging of Some pg \<Rightarrow> pg | None \<Rightarrow> new_PagingParams);
          skip = getSkip paging1 (- 1);
          take' = getTake paging1 (maxPageSize p);
          pagingEnabled = paging_total paging1;
          query1 = query0 @ where_clause filter';
          query2 = query1 @ order_clause sort';
          query3 = query2 @ '' LIMIT '' @ number_to_string take';
          query4 = (if skip \<ge> 0 then query3 @ '' OFFSET '' @ number_to_string skip else query3)
      in case client p of
           None \<Rightarrow> (Throws no_client, e)
         | Some h \<Rightarrow>
             (case client_all drv h query4 [] e of
                ((Some err, result), e1) \<Rightarrow> (Callback (Some err) None, e1)
              | ((None, result), e1) \<Rightarrow>
                  (let items = map_items result
                   in if pagingEnabled
                      then (let cquery = ''SELECT COUNT(*) AS count FROM ''
                                           @ to_string (quoteIdentifier (tableName p))
                                           @ where_clause filter'
                            in case client_get drv h cquery [] e1 of
                                 ((Some err, cresult), e2) \<Rightarrow> (Callback (Some err) None, e2)
                               | ((None, cresult), e2) \<Rightarrow>
                                   (Callback None
                                      (Some \<lparr>page_data = items,
                                             page_total = Some (count_of toLong cresult)\<rparr>), e2))
                      else (Callback None (Some \<lparr>page_data = items, page_total = None\<rparr>), e1))))"

definition getCountByFilter ::
  "('w, 'h) driver \<Rightarrow> (jsval \<Rightarrow> int) \<Rightarrow> 'h sqlite_persistence \<Rightarrow> string option \<Rightarrow> ('w, 'h) env
     \<Rightarrow> int option outcome \<times> ('w, 'h) env" where
  "getCountByFilter drv toLong p filter' e =
     (let query = ''SELECT COUNT(*) AS count FROM '' @ to_string (quoteIdentifier (tableName p))
                    @ where_clause filter'
      in case client p of
           None \<Rightarrow> (Throws no_client, e)
         | Some h \<Rightarrow>
             (case client_get drv h query [] e of
                ((Some err, result), e1) \<Rightarrow> (Callback (Some err) None, e1)
              | ((None, result), e1) \<Rightarrow> (Callback None (Some (count_of toLong result)), e1)))"

definition getListByFilter ::
  "('w, 'h) driver \<Rightarrow> 'h sqlite_persistence \<Rightarrow> string option \<Rightarrow> string option \<Rightarrow> string option
     \<Rightarrow> ('w, 'h) env \<Rightarrow> row list option outcome \<times> ('w, 'h) env" where
  "getListByFilter drv p filter' sort' select e =
     (let query0 = ''SELECT '' @ select_or_star select @ '' FROM ''
                     @ to_string (quoteIdentifier (tableName p));
          query1 = query0 @ where_clause filter';
          query2 = query1 @ order_clause sort'
      in case client p of
           None \<Rightarrow> (Throws no_client, e)
         | Some h \<Rightarrow>
             (case client_all drv h query2 [] e of
                ((Some err, result), e1) \<Rightarrow> (Callback (Some err) None, e1)
              | ((None, result), e1) \<Rightarrow> (Callback None (Some (map_items result)), e1)))"

definition deleteByFilter ::
  "('w, 'h) driver \<Rightarrow> bool \<Rightarrow> 'h sqlite_persistence \<Rightarrow> string option \<Rightarrow> ('w, 'h) env
     \<Rightarrow> unit outcome \<times> ('w, 'h) env" where
  "deleteByFilter drv has_callback p filter' e =
     (let query = ''DELETE FROM '' @ to_string (quoteIdentifier (tableName p)) @ where_clause filter'
      in case client p of
           None \<Rightarrow> (Throws no_client, e)
         | Some h \<Rightarrow>
             (let (err, e1) = client_run drv h query [] e
              in (if has_callback then Callback err () else NoCallback, e1)))"

subsection \<open>Creating\<close>

text \<open>
  \<open>create\<close> hands its callback the object it was given, so the objects are kept in a store
  and passed by address: the store is the list of all objects, a reference is an index
  into it, and a new object goes at the end. A \<open>null\<close> item is \<open>None\<close>.
\<close>

type_synonym store = "row list"
type_synonym ref = nat

text \<open>\<open>_.clone(item)\<close>: a new object with the same properties.\<close>

definition clone :: "ref \<Rightarrow> store \<Rightarrow> ref \<times> store" where
  "clone r objs = (length objs, objs @ [objs ! r])"

text \<open>
  \<open>SqlitePersistence.create\<close>. Neither call of the callback looks whether there is one.
\<close>

definition SqlitePersistence_create ::
  "('w, 'h) driver \<Rightarrow> bool \<Rightarrow> 'h sqlite_persistence \<Rightarrow> ref option \<Rightarrow> store \<Rightarrow> ('w, 'h) env
     \<Rightarrow> ref option outcome \<times> store \<times> ('w, 'h) env" where
  "SqlitePersistence_create drv has_callback p item objs e =
     (case item of
        None \<Rightarrow>
          (if has_callback then Callback None None
           else Throws (TypeError ''callback is not a function''), objs, e)
      | Some r \<Rightarrow>
          (let row = convertFromPublic (objs ! r);
               columns = generateColumns (Object row);
               params = generateParameters (Object row :: string js_values);
               values = generateValues row;
               query = ''INSERT INTO '' @ to_string (quoteIdentifier (tableName p))
                         @ '' ('' @ columns @ '') VALUES ('' @ params @ '')''
           in case client p of
                None \<Rightarrow> (Throws no_client, objs, e)
              | Some h \<Rightarrow>
                  (let (err, e1) = client_run drv h query values e;
                       newItem = Some r
                   in (if has_callback then Callback err newItem
                       else Throws (TypeError ''callback is not a function''), objs, e1))))"

section \<open>IdentifiableSqlitePersistence\<close>

text \<open>
  \<open>create\<close>: an item without an id is cloned and the clone gets the id that
  \<open>IdGenerator.nextLong()\<close> returns, here \<open>nextLong\<close>; \<open>item.id || ...\<close> takes
  the item's own id when that is truthy.
\<close>

definition Identifiable_create ::
  "('w, 'h) driver \<Rightarrow> bool \<Rightarrow> string \<Rightarrow> 'h sqlite_persistence \<Rightarrow> ref option \<Rightarrow> store
     \<Rightarrow> ('w, 'h) env \<Rightarrow> ref option outcome \<times> store \<times> ('w, 'h) env" where
  "Identifiable_create drv has_callback nextLong p item objs e =
     (case item of
        None \<Rightarrow>
          (if has_callback then Callback None None
           else Throws (TypeError ''callback is not a function''), objs, e)
      | Some r \<Rightarrow>
          (if is_null (get_prop (objs ! r) ''id'')
           then (let (newItem, objs1) = clone r objs;
                     id' = (if truthy (get_prop (objs1 ! r) ''id'')
                           then get_prop (objs1 ! r) ''id'' else JStr nextLong);
                     objs2 = objs1[newItem := set_prop (objs1 ! newItem) ''id'' id']
                 in SqlitePersistence_create drv has_callback p (Some newItem) objs2 e)
           else SqlitePersistence_create drv has_callback p (Some r) objs e))"

text \<open>
  The other operations do not hand back what they were given, so their items are passed
  by value. \<open>select_by_id\<close> is the statement that reads an item back.
\<close>

definition select_by_id :: "'h sqlite_persistence \<Rightarrow> string" where
  "select_by_id p = ''SELECT * FROM '' @ to_string (quoteIdentifier (tableName p)) @ '' WHERE id=?''"

text \<open>\<open>result ? this.convertToPublic(result) : null\<close>\<close>

definition public_or_null :: "row option \<Rightarrow> row option" where
  "public_or_null result = (case result of Some r \<Rightarrow> Some (convertToPublic r) | None \<Rightarrow> None)"

definition Identifiable_set ::
  "('w, 'h) driver \<Rightarrow> bool \<Rightarrow> string \<Rightarrow> 'h sqlite_persistence \<Rightarrow> row option \<Rightarrow> ('w, 'h) env
     \<Rightarrow> row option outcome \<times> ('w, 'h) env" where
  "Identifiable_set drv has_callback nextLong p item e =
     (case item of
        None \<Rightarrow> (if has_callback then Callback None None else NoCallback, e)
      | Some item0 \<Rightarrow>
          (let item1 = (if is_null (get_prop item0 ''id'')
                        then set_prop item0 ''id'' (JStr nextLong) else item0);
               row = convertFromPublic item1;
               columns = generateColumns (Object row);
               params = generateParameters (Object row :: string js_values);
               setParams = generateSetParameters row;
               values = generateValues row @ generateValues row;
               query = ''INSERT INTO '' @ to_string (quoteIdentifier (tableName p))
                         @ '' ('' @ columns @ '') VALUES ('' @ params @ '')''
                         @ '' ON CONFLICT(id) DO UPDATE SET '' @ setParams
           in case client p of
                None \<Rightarrow> (Throws no_client, e)
              | Some h \<Rightarrow>
                  (let (err, e1) = client_run drv h query values e;
                       ((err2, result), e2) =
                          client_get drv h (select_by_id p) [get_prop item1 ''id''] e1;
                       newItem = public_or_null result
                   in (if has_callback then Callback err2 newItem else NoCallback, e2))))"

definition Identifiable_update ::
  "('w, 'h) driver \<Rightarrow> bool \<Rightarrow> 'h sqlite_persistence \<Rightarrow> row option \<Rightarrow> ('w, 'h) env
     \<Rightarrow> row option outcome \<times> ('w, 'h) env" where
  "Identifiable_update drv has_callback p item e =
     (if item = None \<or> is_null (get_prop (the item) ''id'')
      then (if has_callback then Callback None None else NoCallback, e)
      else
        (let row = convertFromPublic (the item);
             params = generateSetParameters row;
             values = generateValues row @ [get_prop (the item) ''id''];
             query = ''UPDATE '' @ to_string (quoteIdentifier (tableName p))
                       @ '' SET '' @ params @ '' WHERE id=?''
         in case client p of
              None \<Rightarrow> (Throws no_client, e)
            | Some h \<Rightarrow>
                (let (err, e1) = client_run drv h query values e;
                     ((err2, result), e2) =
                        client_get drv h (select_by_id p) [get_prop (the item) ''id''] e1;
                     newItem = public_or_null result
                 in (if has_callback then Callback err2 newItem else NoCallback, e2))))"

definition convertFromPublicPartial :: "row \<Rightarrow> row" where
  "convertFromPublicPartial v = convertFromPublic v"

text \<open>\<open>updatePartially\<close>; \<open>data\<close> is the object that \<open>data.getAsObject()\<close> gives.\<close>

definition updatePartially ::
  "('w, 'h) driver \<Rightarrow> bool \<Rightarrow> 'h sqlite_persistence \<Rightarrow> jsval \<Rightarrow> row option \<Rightarrow> ('w, 'h) env
     \<Rightarrow> row option outcome \<times> ('w, 'h) env" where
  "updatePartially drv has_callback p id' data e =
     (if data = None \<or> is_null id'
      then (if has_callback then Callback None None else NoCallback, e)
      else
        (let row = convertFromPublicPartial (the data);
             params = generateSetParameters row;
             values = generateValues row @ [id'];
             query = ''UPDATE '' @ to_string (quoteIdentifier (tableName p))
                       @ '' SET '' @ params @ '' WHERE id=?''
         in case client p of
              None \<Rightarrow> (Throws no_client, e)
            | Some h \<Rightarrow>
                (let (err, e1) = client_run drv h query values e;
                     ((err2, result), e2) = client_get drv h (select_by_id p) [id'] e1;
                     newItem = public_or_null result
                 in (if has_callback then Callback err2 newItem else NoCallback, e2))))"

definition deleteById ::
  "('w, 'h) driver \<Rightarrow> bool \<Rightarrow> 'h sqlite_persistence \<Rightarrow> jsval \<Rightarrow> ('w, 'h) env
     \<Rightarrow> row option outcome \<times> ('w, 'h) env" where
  "deleteById drv has_callback p id' e =
     (case client p of
        None \<Rightarrow> (Throws no_client, e)
      | Some h \<Rightarrow>
          (let ((err, result), e1) = client_get drv h (select_by_id p) [id'] e;
               newItem = public_or_null result
           in if newItem = None
              then (if has_callback then Callback err newItem else NoCallback, e1)
              else
                (let query = ''DELETE FROM '' @ to_string (quoteIdentifier (tableName p))
                               @ '' WHERE id=?'';
                     (err2, e2) = client_run drv h query [id'] e1
                 in (if has_callback then Callback err2 newItem else NoCallback, e2))))"

section \<open>The vocabulary of the claims\<close>

text \<open>
  The specification says when \<open>resolve\<close> delivers an error and which database name it
  delivers otherwise. It is written down here as it stands, to be compared with
  \<open>resolve\<close>. Resolution fails when either resolver of the framework reports an error (the
  specification counts the credential stores to connection resolution). What it means
  for a parameter to be "set" or "present" is left open as \<open>is_set\<close>: that it reads as
  not \<open>null\<close>, or as not empty either.
\<close>

definition resolution_fails :: "resolver \<Rightarrow> bool" where
  "resolution_fails r = (fst (resolveAll r) \<noteq> None \<or> fst (lookup r) \<noteq> None)"

definition configured :: "resolver \<Rightarrow> connection_params list" where
  "configured r = (case snd (resolveAll r) of Some cs \<Rightarrow> cs | None \<Rightarrow> [])"

definition claimed_error :: "(string option \<Rightarrow> bool) \<Rightarrow> resolver \<Rightarrow> bool" where
  "claimed_error is_set r =
     (resolution_fails r \<or> configured r = []
      \<or> (\<exists>c \<in> set (configured r).
            case getUri c of Some uri \<Rightarrow> \<not> prefix ''file://'' uri | None \<Rightarrow> False)
      \<or> (\<exists>c \<in> set (configured r). getUri c = None \<and> \<not> is_set (getDatabase c)))"

definition claimed_step ::
  "(string option \<Rightarrow> bool) \<Rightarrow> connection_params \<Rightarrow> sqlite_config \<Rightarrow> sqlite_config" where
  "claimed_step is_set c cfg =
     (if is_set (getDatabase c) then cfg\<lparr>database := getDatabase c\<rparr>
      else (case getUri c of Some uri \<Rightarrow> cfg\<lparr>database := Some (drop 7 uri)\<rparr> | None \<Rightarrow> cfg))"

definition claimed_config :: "(string option \<Rightarrow> bool) \<Rightarrow> resolver \<Rightarrow> sqlite_config" where
  "claimed_config is_set r = fold (claimed_step is_set) (configured r) \<lparr>database = None\<rparr>"

definition resolve_as_claimed :: "(string option \<Rightarrow> bool) \<Rightarrow> resolver \<Rightarrow> bool" where
  "resolve_as_claimed is_set r =
     ((isl (resolve r) \<longleftrightarrow> claimed_error is_set r)
      \<and> (\<not> claimed_error is_set r \<longrightarrow> resolve r = Inr (claimed_config is_set r)))"

definition not_null :: "string option \<Rightarrow> bool" where
  "not_null s = (s \<noteq> None)"

definition not_empty :: "string option \<Rightarrow> bool" where
  "not_empty s = (s \<noteq> None \<and> s \<noteq> Some [])"

text \<open>
  The claim about the schema statements speaks of the statements that are executed and of
  the one that fails. It is measured against what the driver answers when the statements
  are sent to it one after the other, each in the world that the one before has left:
  for every statement the answer and the world after it.
\<close>

fun exec_all :: "('w, 'h) driver \<Rightarrow> 'h \<Rightarrow> string list \<Rightarrow> 'w \<Rightarrow> (error option \<times> 'w) list" where
  "exec_all drv h [] w = []"
| "exec_all drv h (dml # rest) w =
     db_exec drv h dml w # exec_all drv h rest (snd (db_exec drv h dml w))"

section \<open>A scripted driver\<close>

text \<open>
  To run the model on concrete inputs, a driver that answers from a script: the world is
  the list of the answers still to be given, each an error (or none) and the rows
  found. Every call takes the next answer, whatever the statement; when the script is
  used up, every call succeeds and finds nothing. Its only handle is \<open>1\<close>.
\<close>

type_synonym script = "(error option \<times> row list) list"

definition next_answer :: "script \<Rightarrow> (error option \<times> row list) \<times> script" where
  "next_answer w = (case w of [] \<Rightarrow> ((None, []), []) | a # w' \<Rightarrow> (a, w'))"

definition scripted :: "(script, nat) driver" where
  "scripted =
     \<lparr>new_Database = (\<lambda>file w. case next_answer w of
                          ((None, rows), w') \<Rightarrow> (Opened 1, w')
                        | ((Some err, rows), w') \<Rightarrow> (OpenFailed err, w')),
      db_close = (\<lambda>h w. case next_answer w of ((err, rows), w') \<Rightarrow> (err, w')),
      db_all = (\<lambda>h query params w. case next_answer w of
                  ((None, rows), w') \<Rightarrow> ((None, Some rows), w')
                | ((Some err, rows), w') \<Rightarrow> ((Some err, None), w')),
      db_get = (\<lambda>h query params w. case next_answer w of
                  ((None, rows), w') \<Rightarrow> ((None, case rows of [] \<Rightarrow> None | r # rs \<Rightarrow> Some r), w')
                | ((Some err, rows), w') \<Rightarrow> ((Some err, None), w')),
      db_run = (\<lambda>h query params w. case next_answer w of ((err, rows), w') \<Rightarrow> (err, w')),
      db_exec = (\<lambda>h query w. case next_answer w of ((err, rows), w') \<Rightarrow> (err, w'))\<rparr>"

definition start :: "script \<Rightarrow> (script, nat) env" where
  "start w = \<lparr>world = w, issued = []\<rparr>"

text \<open>A component on the table \<open>dummies\<close> whose client is the handle \<open>1\<close>.\<close>

definition dummies :: "nat sqlite_persistence" where
  "dummies = (new_SqlitePersistence (Str ''dummies''))\<lparr>client := Some 1\<rparr>"

text \<open>Items, paging parameters and a converter for the concrete runs.\<close>

definition seven :: row where
  "seven = [(''id'', JStr ''7''), (''key'', JStr ''k'')]"

definition unsaved :: row where
  "unsaved = [(''key'', JStr ''k'')]"

definition first_ten_after_five :: paging_params where
  "first_ten_after_five =
     \<lparr>getSkip = (\<lambda>minSkip. max minSkip 5), getTake = (\<lambda>maxTake. min maxTake 10),
      paging_total = True\<rparr>"

definition number_or_zero :: "jsval \<Rightarrow> int" where
  "number_or_zero v = (case v of JNum n \<Rightarrow> n | _ \<Rightarrow> 0)"

text \<open>
  A driver that keeps the rows of the one table \<open>dummies\<close> and understands the two
  unconditional statements only: after \<open>DELETE FROM "dummies"\<close> no row is left, and
  \<open>SELECT COUNT(*) AS count FROM "dummies"\<close> finds the number of the rows. Every other
  statement is an error and changes nothing.
\<close>

definition not_understood :: error where
  "not_understood = Error (Some ''SQLITE_ERROR: statement not understood'')"

definition one_table :: "(row list, nat) driver" where
  "one_table =
     \<lparr>new_Database = (\<lambda>file rows. (Opened 1, rows)),
      db_close = (\<lambda>h rows. (None, rows)),
      db_all = (\<lambda>h query params rows. ((Some not_understood, None), rows)),
      db_get = (\<lambda>h query params rows.
                  if query = ''SELECT COUNT(*) AS count FROM '' @ [dquote] @ ''dummies'' @ [dquote]
                  then ((None, Some [(''count'', JNum (int (length rows)))]), rows)
                  else ((Some not_understood, None), rows)),
      db_run = (\<lambda>h query params rows.
                  if query = ''DELETE FROM '' @ [dquote] @ ''dummies'' @ [dquote]
                  then (None, [])
                  else (Some not_understood, rows)),
      db_exec = (\<lambda>h query rows. (Some not_understood, rows))\<rparr>"

text \<open>Resolver configurations, with a uri, with a database, and the wrong ones.\<close>

definition by_uri :: resolver where
  "by_uri = \<lparr>resolveAll = (None, Some [\<lparr>uri_param = Some ''file://./data/test.db'',
                                           database_param = None\<rparr>]),
             lookup = (None, None)\<rparr>"

definition by_database :: resolver where
  "by_database = \<lparr>resolveAll = (None, Some [\<lparr>uri_param = None,
                                                database_param = Some ''./data/test.db''\<rparr>]),
                  lookup = (None, None)\<rparr>"

definition wrong_protocol :: resolver where
  "wrong_protocol = \<lparr>resolveAll = (None, Some [\<lparr>uri_param = Some ''http://localhost'',
                                                   database_param = Some ''./data/test.db''\<rparr>]),
                     lookup = (None, None)\<rparr>"

definition empty_database :: resolver where
  "empty_database = \<lparr>resolveAll = (None, Some [\<lparr>uri_param = None, database_param = Some []\<rparr>]),
                     lookup = (None, None)\<rparr>"

text \<open>
  A connection component that is open on the handle \<open>1\<close>, a persistence component that
  shares it and one that will open its own; both have two schema statements.
\<close>

definition opened_connection :: "nat sqlite_connection" where
  "opened_connection =
     \<lparr>connectionResolver = by_database, connection_handle = Some 1,
      connection_databaseName = Some ''./data/test.db''\<rparr>"

definition create_table :: string where
  "create_table = ''CREATE TABLE dummies (id TEXT PRIMARY KEY, key TEXT)''"

definition create_index :: string where
  "create_index = ''CREATE INDEX IF NOT EXISTS dummies_key ON dummies (key)''"

definition shared_dummies :: "nat sqlite_persistence" where
  "shared_dummies =
     ensureSchema create_index (ensureSchema create_table
       (setReferences (Some opened_connection) (new_SqlitePersistence (Str ''dummies''))))"

definition local_dummies :: "nat sqlite_persistence" where
  "local_dummies =
     ensureSchema create_index (ensureSchema create_table
       (configure \<lparr>param_collection = None, param_table = None, param_max_page_size = Absent,
                   param_connection = by_database\<rparr>
          (new_SqlitePersistence (Str ''dummies''))))"

section \<open>Verified properties\<close>

text \<open>The definitions to unfold for the driver's calls and for the concrete runs.\<close>

lemmas client_defs = client_all_def client_get_def client_run_def client_exec_def

lemmas run_defs = dummies_def new_SqlitePersistence_def start_def scripted_def next_answer_def
  dquote_def

subsection \<open>Resolving the connection\<close>

lemma validateConnection_None:
  "validateConnection c = None \<longleftrightarrow>
     (case getUri c of Some uri \<Rightarrow> prefix ''file://'' uri | None \<Rightarrow> getDatabase c \<noteq> None)"
  by (auto simp: validateConnection_def split: option.splits)

lemma validateEach_None:
  "validateEach cs = None \<longleftrightarrow> (\<forall>c \<in> set cs. validateConnection c = None)"
  by (induction cs) (auto split: option.splits)

lemma validateConnections_None:
  "validateConnections conns = None \<longleftrightarrow>
     (\<exists>cs. conns = Some cs \<and> cs \<noteq> [] \<and> (\<forall>c \<in> set cs. validateConnection c = None))"
  by (cases conns) (auto simp: validateConnections_def validateEach_None)

lemma resolve_cases:
  "resolve r =
     (case fst (resolveAll r) of
        Some err \<Rightarrow> Inl err
      | None \<Rightarrow>
          (case validateConnections (snd (resolveAll r)) of
             Some err \<Rightarrow> Inl err
           | None \<Rightarrow>
               (case fst (lookup r) of
                  Some err \<Rightarrow> Inl err
                | None \<Rightarrow> Inr (composeConfig (configured r) (snd (lookup r))))))"
proof (cases "validateConnections (snd (resolveAll r))")
  case None
  then obtain cs where "snd (resolveAll r) = Some cs"
    using validateConnections_None by blast
  with None show ?thesis
    by (cases "resolveAll r"; cases "lookup r")
       (auto simp: resolve_def configured_def split: option.splits)
next
  case (Some err)
  then show ?thesis
    by (cases "resolveAll r"; cases "lookup r") (auto simp: resolve_def split: option.splits)
qed

lemma resolve_isl:
  "isl (resolve r) \<longleftrightarrow>
     (fst (resolveAll r) \<noteq> None \<or> fst (lookup r) \<noteq> None
      \<or> validateConnections (snd (resolveAll r)) \<noteq> None)"
  by (auto simp: resolve_cases split: option.splits)

lemma invalid_connections:
  "validateConnections conns \<noteq> None \<longleftrightarrow>
     (case conns of None \<Rightarrow> True
      | Some cs \<Rightarrow> cs = [] \<or> (\<exists>c \<in> set cs. validateConnection c \<noteq> None))"
  using validateConnections_None [of conns] by (cases conns) auto

lemma invalid_connection:
  "validateConnection c \<noteq> None \<longleftrightarrow>
     (case getUri c of Some uri \<Rightarrow> \<not> prefix ''file://'' uri | None \<Rightarrow> getDatabase c = None)"
  by (auto simp: validateConnection_def split: option.splits)

lemma invalid_split:
  "validateConnection c \<noteq> None \<longleftrightarrow>
     (case getUri c of Some uri \<Rightarrow> \<not> prefix ''file://'' uri | None \<Rightarrow> False)
     \<or> (getUri c = None \<and> \<not> not_null (getDatabase c))"
  unfolding invalid_connection not_null_def by (cases "getUri c") auto

lemma some_invalid:
  "(\<exists>c \<in> set cs. validateConnection c \<noteq> None) \<longleftrightarrow>
     (\<exists>c \<in> set cs. case getUri c of Some uri \<Rightarrow> \<not> prefix ''file://'' uri | None \<Rightarrow> False)
     \<or> (\<exists>c \<in> set cs. getUri c = None \<and> \<not> not_null (getDatabase c))"
  unfolding invalid_split by blast

lemma error_iff: "isl (resolve r) \<longleftrightarrow> claimed_error not_null r"
proof (cases "snd (resolveAll r)")
  case None
  then show ?thesis
    unfolding resolve_isl claimed_error_def resolution_fails_def configured_def
      invalid_connections
    by simp
next
  case (Some cs)
  then show ?thesis
    unfolding resolve_isl claimed_error_def resolution_fails_def configured_def
      invalid_connections some_invalid
    by auto
qed

lemma resolve_Inr:
  "\<not> isl (resolve r) \<Longrightarrow> resolve r = Inr (composeConfig (configured r) (snd (lookup r)))"
  by (auto simp: resolve_cases split: option.splits)

lemma get_param_nonempty: "get_param stored \<noteq> Some []"
  by (simp add: get_param_def split: option.splits)

lemma getDatabase_nonempty: "getDatabase c \<noteq> Some []"
  by (simp add: getDatabase_def get_param_nonempty)

lemma getUri_nonempty: "getUri c \<noteq> Some []"
  by (simp add: getUri_def get_param_nonempty)

lemma not_empty_getDatabase: "not_empty (getDatabase c) = not_null (getDatabase c)"
  by (simp add: not_empty_def not_null_def getDatabase_nonempty)

lemma claimed_step_valid:
  assumes "validateConnection c = None"
  shows "claimed_step not_null c cfg = composeStep c cfg"
  using assms getDatabase_nonempty [of c] getUri_nonempty [of c]
  by (auto simp: claimed_step_def composeStep_def not_null_def validateConnection_None Let_def
      split: option.splits)

lemma claimed_fold:
  assumes "\<forall>c \<in> set cs. validateConnection c = None"
  shows "fold (claimed_step not_null) cs cfg = fold composeStep cs cfg"
  using assms by (induction cs arbitrary: cfg) (simp_all add: claimed_step_valid)

lemma valid_when_no_error:
  assumes "\<not> isl (resolve r)"
  shows "\<forall>c \<in> set (configured r). validateConnection c = None"
  using assms unfolding resolve_isl configured_def
  by (auto simp: validateConnections_None)

lemma resolve_not_null: "resolve_as_claimed not_null r"
  unfolding resolve_as_claimed_def
proof (intro conjI impI)
  show e: "isl (resolve r) \<longleftrightarrow> claimed_error not_null r"
    by (rule error_iff)
  assume "\<not> claimed_error not_null r"
  then have n: "\<not> isl (resolve r)"
    using e by simp
  show "resolve r = Inr (claimed_config not_null r)"
    using resolve_Inr [OF n] claimed_fold [OF valid_when_no_error [OF n]]
    by (simp add: composeConfig_def claimed_config_def)
qed

lemma readings_agree:
  "claimed_error not_empty r = claimed_error not_null r"
  "claimed_config not_empty r = claimed_config not_null r"
proof -
  show "claimed_error not_empty r = claimed_error not_null r"
    by (simp add: claimed_error_def not_empty_getDatabase)
  have "claimed_step not_empty = claimed_step not_null"
    by (intro ext) (simp add: claimed_step_def not_empty_getDatabase)
  then show "claimed_config not_empty r = claimed_config not_null r"
    by (simp add: claimed_config_def)
qed

text \<open>
  C1: for every configuration, \<open>resolve\<close> delivers an error (and no configuration) if and
  only if the resolution fails, no connection is configured, some connection has a uri
  that does not start with \<open>file://\<close>, or some connection without a uri has no database
  parameter set; otherwise it delivers the configuration whose database is, taking the
  connections in order, the database parameter of the connection when it has one, else
  its uri without the first \<open>7\<close> characters. This holds whether a parameter counts as set
  when it reads as not \<open>null\<close> or only when it reads as not empty, since no parameter
  reads as the empty string.
\<close>

theorem resolve_error_or_database:
  "resolve_as_claimed not_null r \<and> resolve_as_claimed not_empty r"
proof
  show "resolve_as_claimed not_null r"
    by (rule resolve_not_null)
  then show "resolve_as_claimed not_empty r"
    by (simp add: resolve_as_claimed_def readings_agree)
qed

theorem resolve_error_or_database_witness:
  "resolve_as_claimed not_null by_uri
   \<and> resolve by_uri = Inr \<lparr>database = Some ''./data/test.db''\<rparr>
   \<and> resolve_as_claimed not_null by_database
   \<and> resolve by_database = Inr \<lparr>database = Some ''./data/test.db''\<rparr>
   \<and> resolve_as_claimed not_null wrong_protocol
   \<and> resolve wrong_protocol
       = Inl (ConfigException ''WRONG_PROTOCOL'' ''Connection protocol must be file://'')
   \<and> resolve_as_claimed not_empty empty_database
   \<and> resolve empty_database
       = Inl (ConfigException ''NO_DATABASE'' ''Connection database is not set'')"
  using resolve_error_or_database [of by_uri] resolve_error_or_database [of by_database]
    resolve_error_or_database [of wrong_protocol] resolve_error_or_database [of empty_database]
  by (simp add: by_uri_def by_database_def wrong_protocol_def empty_database_def resolve_def
      validateConnections_def validateConnection_def composeConfig_def composeStep_def
      getUri_def getDatabase_def get_param_def)

subsection \<open>The connection component\<close>

lemma open_result:
  "SqliteConnection_open drv cb c e = (out, c', e') \<Longrightarrow>
     (connection_handle c' = connection_handle c \<and> connection_databaseName c' = connection_databaseName c)
     \<or> (\<exists>db conf. resolve (connectionResolver c) = Inr conf
           \<and> fst (client_connect drv (database conf) e) = Opened db
           \<and> connection_handle c' = Some db \<and> connection_databaseName c' = database conf
           \<and> out = (if cb then Callback None () else NoCallback))"
  by (auto simp: SqliteConnection_open_def split: sum.splits prod.splits db_open.splits if_splits)

lemma open_success:
  assumes "SqliteConnection_open drv True c e = (Callback None (), c', e')"
  shows "\<exists>db conf. resolve (connectionResolver c) = Inr conf
           \<and> client_connect drv (database conf) e = (Opened db, e')
           \<and> getConnection c' = Some db \<and> getDatabaseName c' = database conf
           \<and> SqliteConnection_isOpen c'"
  using assms
  by (auto simp: SqliteConnection_open_def getConnection_def getDatabaseName_def
      SqliteConnection_isOpen_def split: sum.splits prod.splits db_open.splits if_splits)

lemma call_keeps:
  "name_needs_handle (fst s) \<Longrightarrow> name_needs_handle (fst (SqliteConnection_call drv call s))"
  apply (cases s; cases call)
    apply (auto simp: name_needs_handle_def SqliteConnection_configure_def SqliteConnection_open_def
      SqliteConnection_close_def Let_def split: sum.splits prod.splits db_open.splits option.splits)
  done

lemma calls_keep:
  "name_needs_handle (fst s) \<Longrightarrow> name_needs_handle (fst (SqliteConnection_calls drv calls s))"
  unfolding SqliteConnection_calls_def
  by (induction calls arbitrary: s) (simp_all add: call_keeps)


lemma new_connection_ok: "name_needs_handle (new_SqliteConnection :: 'h sqlite_connection)"
  by (simp add: name_needs_handle_def new_SqliteConnection_def)

lemma close_resets:
  assumes "name_needs_handle c" and "SqliteConnection_close drv cb c e = (out, c', e')"
  shows "getConnection c' = None \<and> getDatabaseName c' = None \<and> \<not> SqliteConnection_isOpen c'"
  using assms
  by (auto simp: SqliteConnection_close_def name_needs_handle_def getConnection_def
      getDatabaseName_def SqliteConnection_isOpen_def Let_def split: option.splits prod.splits)

lemma close_error:
  assumes "getConnection c = Some db" and "client_close drv db e = (Some err, e')"
  shows "SqliteConnection_close drv True c e
           = (Callback (Some (ConnectionException ''DISCONNECT_FAILED''
                                ''Disconnect from sqlite failed: '' (Some err))) (),
              c\<lparr>connection_handle := None, connection_databaseName := None\<rparr>, e')"
  using assms by (simp add: SqliteConnection_close_def getConnection_def)

lemma close_not_open:
  assumes "\<not> SqliteConnection_isOpen c"
  shows "SqliteConnection_close drv True c e = (Callback None (), c, e)"
  using assms by (simp add: SqliteConnection_close_def SqliteConnection_isOpen_def)

text \<open>
  C7: the component has one field for the handle of the driver. After every sequence of
  \<open>configure\<close>, \<open>open\<close> and \<open>close\<close> calls on a new component: \<open>isOpen()\<close> is true if and only if
  the component holds a handle, and a database name is held only with a handle; when
  \<open>open\<close> succeeds, \<open>getConnection()\<close> is the handle the driver returned and
  \<open>getDatabaseName()\<close> is the database of the resolved configuration; when \<open>close\<close> has
  completed, with or without an error of the driver, handle and name are \<open>null\<close> and
  \<open>isOpen()\<close> is false, and an error of the driver reaches the callback wrapped as
  \<open>DISCONNECT_FAILED\<close>; \<open>close\<close> on a component that is not open calls its callback with
  \<open>null\<close> and changes nothing.
\<close>

theorem connection_lifecycle:
  "(c, e) = SqliteConnection_calls drv calls (new_SqliteConnection, e0) \<Longrightarrow>
     (SqliteConnection_isOpen c \<longleftrightarrow> getConnection c \<noteq> None)
   \<and> (getDatabaseName c \<noteq> None \<longrightarrow> SqliteConnection_isOpen c)
   \<and> (SqliteConnection_open drv True c e = (Callback None (), c_opened, e_opened) \<longrightarrow>
        (\<exists>db conf. resolve (connectionResolver c) = Inr conf
           \<and> client_connect drv (database conf) e = (Opened db, e_opened)
           \<and> getConnection c_opened = Some db \<and> getDatabaseName c_opened = database conf
           \<and> SqliteConnection_isOpen c_opened))
   \<and> (SqliteConnection_close drv cb c e = (out, c_closed, e_closed) \<longrightarrow>
        getConnection c_closed = None \<and> getDatabaseName c_closed = None
        \<and> \<not> SqliteConnection_isOpen c_closed)
   \<and> (getConnection c = Some db \<and> client_close drv db e = (Some err, e_failed) \<longrightarrow>
        SqliteConnection_close drv True c e
          = (Callback (Some (ConnectionException ''DISCONNECT_FAILED''
                               ''Disconnect from sqlite failed: '' (Some err))) (),
             c\<lparr>connection_handle := None, connection_databaseName := None\<rparr>, e_failed))
   \<and> (\<not> SqliteConnection_isOpen c \<longrightarrow>
        SqliteConnection_close drv True c e = (Callback None (), c, e))"
proof -
  assume r: "(c, e) = SqliteConnection_calls drv calls (new_SqliteConnection, e0)"
  have inv: "name_needs_handle c"
    using calls_keep [of "(new_SqliteConnection, e0)" drv calls] new_connection_ok r [symmetric]
    by simp
  show ?thesis
  proof (intro conjI impI)
    show "SqliteConnection_isOpen c \<longleftrightarrow> getConnection c \<noteq> None"
      by (simp add: SqliteConnection_isOpen_def getConnection_def)
    show "SqliteConnection_isOpen c" if "getDatabaseName c \<noteq> None"
      using inv that
      by (simp add: name_needs_handle_def SqliteConnection_isOpen_def getDatabaseName_def)
    show "\<exists>db conf. resolve (connectionResolver c) = Inr conf
           \<and> client_connect drv (database conf) e = (Opened db, e_opened)
           \<and> getConnection c_opened = Some db \<and> getDatabaseName c_opened = database conf
           \<and> SqliteConnection_isOpen c_opened"
      if "SqliteConnection_open drv True c e = (Callback None (), c_opened, e_opened)"
      using that by (rule open_success)
    show "getConnection c_closed = None"
      and "getDatabaseName c_closed = None"
      and "\<not> SqliteConnection_isOpen c_closed"
      if "SqliteConnection_close drv cb c e = (out, c_closed, e_closed)"
      using close_resets [OF inv that] by simp_all
    show "SqliteConnection_close drv True c e
          = (Callback (Some (ConnectionException ''DISCONNECT_FAILED''
                               ''Disconnect from sqlite failed: '' (Some err))) (),
             c\<lparr>connection_handle := None, connection_databaseName := None\<rparr>, e_failed)"
      if "getConnection c = Some db \<and> client_close drv db e = (Some err, e_failed)"
      using that close_error [of c db drv e err e_failed] by simp
    show "SqliteConnection_close drv True c e = (Callback None (), c, e)"
      if "\<not> SqliteConnection_isOpen c"
      using that by (rule close_not_open)
  qed
qed

theorem connection_lifecycle_witness:
  "SqliteConnection_calls scripted [Configure by_uri, Open True]
       (new_SqliteConnection, start [(None, []), (Some (Error (Some ''busy'')), [])])
     = (\<lparr>connectionResolver = by_uri, connection_handle = Some 1,
         connection_databaseName = Some ''./data/test.db''\<rparr>,
        \<lparr>world = [(Some (Error (Some ''busy'')), [])],
         issued = [DbConnect (Some ''./data/test.db'')]\<rparr>)
   \<and> SqliteConnection_close scripted True
         \<lparr>connectionResolver = by_uri, connection_handle = Some 1,
          connection_databaseName = Some ''./data/test.db''\<rparr>
         \<lparr>world = [(Some (Error (Some ''busy'')), [])],
          issued = [DbConnect (Some ''./data/test.db'')]\<rparr>
     = (Callback (Some (ConnectionException ''DISCONNECT_FAILED''
                          ''Disconnect from sqlite failed: '' (Some (Error (Some ''busy''))))) (),
        \<lparr>connectionResolver = by_uri, connection_handle = None,
         connection_databaseName = None\<rparr>,
        \<lparr>world = [], issued = [DbConnect (Some ''./data/test.db''), DbClose 1]\<rparr>)
   \<and> SqliteConnection_open scripted True
         (SqliteConnection_configure by_database new_SqliteConnection) (start [])
     = (Callback None (),
        \<lparr>connectionResolver = by_database, connection_handle = Some 1,
         connection_databaseName = Some ''./data/test.db''\<rparr>,
        \<lparr>world = [], issued = [DbConnect (Some ''./data/test.db'')]\<rparr>)
   \<and> SqliteConnection_close scripted True
         (SqliteConnection_configure by_database new_SqliteConnection) (start [])
     = (Callback None (), SqliteConnection_configure by_database new_SqliteConnection, start [])"
proof -
  note ev = SqliteConnection_calls_def SqliteConnection_configure_def SqliteConnection_open_def
    SqliteConnection_close_def new_SqliteConnection_def client_connect_def client_close_def
    by_uri_def by_database_def resolve_def validateConnections_def validateConnection_def
    composeConfig_def composeStep_def getUri_def getDatabase_def get_param_def run_defs getConnection_def getDatabaseName_def
    SqliteConnection_isOpen_def
  let ?e = "start [(None, []), (Some (Error (Some ''busy'')), [])]"
  let ?c = "\<lparr>connectionResolver = by_uri, connection_handle = Some (1::nat),
         connection_databaseName = Some ''./data/test.db''\<rparr>"
  let ?e' = "\<lparr>world = [(Some (Error (Some ''busy'')), [])],
         issued = [DbConnect (Some ''./data/test.db'') :: nat call]\<rparr>"
  have run: "(?c, ?e') = SqliteConnection_calls scripted [Configure by_uri, Open True]
                (new_SqliteConnection, ?e)"
    by (simp add: ev)
  have cfg: "(SqliteConnection_configure by_database new_SqliteConnection, start [])
               = SqliteConnection_calls scripted [Configure by_database]
                   (new_SqliteConnection :: nat sqlite_connection, start [])"
    by (simp add: ev)
  show ?thesis
    using connection_lifecycle [OF run, where db = 1 and err = "Error (Some ''busy'')"
        and e_failed = "\<lparr>world = [], issued = [DbConnect (Some ''./data/test.db''), DbClose 1]\<rparr>"]
      connection_lifecycle [OF cfg, where c_opened = "\<lparr>connectionResolver = by_database,
          connection_handle = Some 1, connection_databaseName = Some ''./data/test.db''\<rparr>"
        and e_opened = "\<lparr>world = [], issued = [DbConnect (Some ''./data/test.db'')]\<rparr>"]
      run [symmetric]
    by (simp add: ev)
qed

subsection \<open>Opening the persistence component\<close>

lemma indexOf_from_sublist:
  "0 \<le> i \<Longrightarrow> indexOf_from s pat i < 0 \<longleftrightarrow> \<not> sublist pat s"
proof (induction s arbitrary: i)
  case Nil
  then show ?case by auto
next
  case (Cons c cs)
  have "0 \<le> i + 1" using Cons.prems by simp
  from Cons.IH [OF this] Cons.prems show ?case
    by (auto simp: sublist_Cons_right)
qed

lemma indexOf_sublist: "indexOf s pat < 0 \<longleftrightarrow> \<not> sublist pat s"
  by (simp add: indexOf_def indexOf_from_sublist)

lemma no_such_table_iff:
  "no_such_table err \<longleftrightarrow> (\<exists>m. message err = Some m \<and> sublist ''no such table'' m)"
  by (auto simp: no_such_table_def indexOf_sublist split: option.splits)

lemma client_exec_eq:
  "client_exec drv h dml e
     = (fst (db_exec drv h dml (world e)),
        \<lparr>world = snd (db_exec drv h dml (world e)), issued = issued e @ [DbExec h dml]\<rparr>)"
  by (simp add: client_exec_def split: prod.splits)

lemma execEach_trace:
  "ss \<noteq> [] \<Longrightarrow> execEach drv h ss e = (r, e') \<Longrightarrow>
     \<exists>k. 0 < k \<and> k \<le> length ss
       \<and> (\<forall>i < k - 1. fst (exec_all drv h ss (world e) ! i) = None)
       \<and> r = fst (exec_all drv h ss (world e) ! (k - 1))
       \<and> e' = \<lparr>world = snd (exec_all drv h ss (world e) ! (k - 1)),
                issued = issued e @ map (DbExec h) (take k ss)\<rparr>
       \<and> (r = None \<longrightarrow> k = length ss)"
proof (induction ss arbitrary: e)
  case Nil
  then show ?case by simp
next
  case (Cons dml rest)
  let ?a = "db_exec drv h dml (world e)"
  let ?e1 = "\<lparr>world = snd ?a, issued = issued e @ [DbExec h dml]\<rparr>"
  show ?case
  proof (cases "fst ?a")
    case (Some err)
    with Cons.prems(2) have "r = Some err" "e' = ?e1"
      by (simp_all add: client_exec_eq)
    with Some show ?thesis
      by (intro exI [of _ "Suc 0"]) simp
  next
    case None
    with Cons.prems(2) have run: "execEach drv h rest ?e1 = (r, e')"
      by (simp add: client_exec_eq)
    show ?thesis
    proof (cases "rest = []")
      case True
      with run have "r = None" "e' = ?e1" by simp_all
      with None True show ?thesis
        by (intro exI [of _ "Suc 0"]) simp
    next
      case False
      have "\<exists>k. 0 < k \<and> k \<le> length rest
              \<and> (\<forall>i < k - 1. fst (exec_all drv h rest (snd ?a) ! i) = None)
              \<and> r = fst (exec_all drv h rest (snd ?a) ! (k - 1))
              \<and> e' = \<lparr>world = snd (exec_all drv h rest (snd ?a) ! (k - 1)),
                       issued = (issued e @ [DbExec h dml]) @ map (DbExec h) (take k rest)\<rparr>
              \<and> (r = None \<longrightarrow> k = length rest)"
        using Cons.IH [OF False run] by simp
      then obtain k where k:
        "0 < k" "k \<le> length rest"
        "\<forall>i < k - 1. fst (exec_all drv h rest (snd ?a) ! i) = None"
        "r = fst (exec_all drv h rest (snd ?a) ! (k - 1))"
        "e' = \<lparr>world = snd (exec_all drv h rest (snd ?a) ! (k - 1)),
               issued = (issued e @ [DbExec h dml]) @ map (DbExec h) (take k rest)\<rparr>"
        "r = None \<longrightarrow> k = length rest"
        by (elim exE conjE) (rule that; assumption)
      have at: "exec_all drv h (dml # rest) (world e) ! (Suc k - 1)
                  = exec_all drv h rest (snd ?a) ! (k - 1)"
        using k(1) by (cases k) simp_all
      show ?thesis
      proof (intro exI [of _ "Suc k"] conjI allI impI)
        show "0 < Suc k" by simp
        show "Suc k \<le> length (dml # rest)" using k(2) by simp
        show "fst (exec_all drv h (dml # rest) (world e) ! i) = None" if "i < Suc k - 1" for i
        proof (cases i)
          case 0
          then show ?thesis using None by simp
        next
          case (Suc j)
          with that have "j < k - 1" by simp
          with k(3) Suc show ?thesis by simp
        qed
        show "r = fst (exec_all drv h (dml # rest) (world e) ! (Suc k - 1))"
          unfolding at by (rule k(4))
        show "e' = \<lparr>world = snd (exec_all drv h (dml # rest) (world e) ! (Suc k - 1)),
                      issued = issued e @ map (DbExec h) (take (Suc k) (dml # rest))\<rparr>"
          unfolding at using k(5) by simp
        show "Suc k = length (dml # rest)" if "r = None"
          using that k(6) by simp
      qed
    qed
  qed
qed

lemma createSchema_empty:
  "schemaStatements p = [] \<Longrightarrow> createSchema drv p e = (Callback None (), e)"
  by (simp add: createSchema_def)

lemma createSchema_exists:
  assumes "schemaStatements p \<noteq> []" and "client p = Some h"
    and "client_get drv h (''SELECT * FROM '' @ to_string (quoteIdentifier (tableName p)) @ '' LIMIT 1'') [] e
           = ((None, result), e')"
  shows "createSchema drv p e = (Callback None (), e')"
  using assms by (simp add: createSchema_def)

lemma createSchema_other_error:
  assumes "schemaStatements p \<noteq> []" and "client p = Some h"
    and "client_get drv h (''SELECT * FROM '' @ to_string (quoteIdentifier (tableName p)) @ '' LIMIT 1'') [] e
           = ((Some err, result), e')"
    and "\<not> no_such_table err"
  shows "createSchema drv p e = (Callback (Some err) (), e')"
  using assms by (simp add: createSchema_def)

lemma createSchema_missing:
  assumes "schemaStatements p \<noteq> []" and "client p = Some h"
    and "client_get drv h (''SELECT * FROM '' @ to_string (quoteIdentifier (tableName p)) @ '' LIMIT 1'') [] e
           = ((Some err, result), e')"
    and "no_such_table err"
  shows "createSchema drv p e
           = (Callback (fst (execEach drv h (schemaStatements p) e')) (),
              snd (execEach drv h (schemaStatements p) e'))"
  using assms by (simp add: createSchema_def split: prod.splits)

text \<open>The same three cases in release 3.0.0, where only the text of the probe differs.\<close>

lemma autoCreateObjects_probe:
  assumes "schemaStatements p \<noteq> []" and "client p = Some h"
    and "client_get drv h
           (''SELECT * FROM '' @ [CHR 0x27] @ to_string (tableName p) @ [CHR 0x27] @ '' LIMIT 1'') [] e
           = ((answer, result), e')"
  shows "autoCreateObjects drv p e =
           (case answer of
              None \<Rightarrow> (Callback None (), e')
            | Some err \<Rightarrow>
                if no_such_table err
                then (Callback (fst (execEach drv h (schemaStatements p) e')) (),
                      snd (execEach drv h (schemaStatements p) e'))
                else (Callback (Some err) (), e'))"
  using assms by (simp add: autoCreateObjects_def split: prod.splits option.splits)

lemma openCurl_connected:
  assumes "connection p = Some c" and "SqliteConnection_isOpen c"
    and "q = p\<lparr>opened := False, client := getConnection c, databaseName := getDatabaseName c\<rparr>"
  shows "openCurl drv True None p e =
           (case createSchema drv q e of
              (Callback (Some cause) u, e') \<Rightarrow>
                (Callback (Some (ConnectionException ''CONNECT_FAILED''
                                   ''Connection to sqlite failed'' (Some cause))) (),
                 q, e')
            | (Callback None u, e') \<Rightarrow> (Callback None (), q\<lparr>opened := True\<rparr>, e')
            | (other, e') \<Rightarrow> (other, q, e'))"
  using assms
  by (simp add: openCurl_def defineSchema_def Let_def split: prod.splits outcome.splits
      option.splits)

lemma open_reaches_openCurl:
  assumes "\<not> opened p"
    and "c = (case connection p of Some x \<Rightarrow> x | None \<Rightarrow> createConnection p)"
    and "if localConnection p \<or> connection p = None
         then SqliteConnection_open drv True c e = (Callback None (), c1, e1)
         else c1 = c \<and> e1 = e"
  shows "SqlitePersistence_open drv True p e
           = openCurl drv True None
               (p\<lparr>localConnection := (localConnection p \<or> connection p = None),
                  connection := Some c1\<rparr>) e1"
proof (cases "connection p")
  case None
  with assms show ?thesis
    by (simp add: SqlitePersistence_open_def)
next
  case (Some x)
  with assms have c: "c = x" by simp
  show ?thesis
  proof (cases "localConnection p")
    case True
    then have eq: "p\<lparr>localConnection := (localConnection p \<or> connection p = None),
                    connection := Some c1\<rparr> = p\<lparr>connection := Some c1\<rparr>"
      by (cases p) auto
    from assms(3) True c have "SqliteConnection_open drv True x e = (Callback None (), c1, e1)"
      by simp
    then show ?thesis
      unfolding eq using assms(1) Some True by (simp add: SqlitePersistence_open_def)
  next
    case False
    from assms(3) False Some c have c1: "c1 = x" and e1: "e1 = e"
      by simp_all
    have eq: "p\<lparr>localConnection := (localConnection p \<or> connection p = None),
                connection := Some c1\<rparr> = p"
      using False Some c1 by (cases p) auto
    show ?thesis
      unfolding eq e1 using assms(1) Some False by (simp add: SqlitePersistence_open_def)
  qed
qed

lemma open_to_schema:
  assumes "\<not> opened p"
    and "c = (case connection p of Some x \<Rightarrow> x | None \<Rightarrow> createConnection p)"
    and "if localConnection p \<or> connection p = None
         then SqliteConnection_open drv True c e = (Callback None (), c1, e1)
         else c1 = c \<and> e1 = e"
    and "getConnection c1 = Some h"
  shows "SqlitePersistence_open drv True p e =
           (case createSchema drv (connected p c1) e1 of
              (Callback (Some cause) u, e') \<Rightarrow>
                (Callback (Some (ConnectionException ''CONNECT_FAILED''
                                   ''Connection to sqlite failed'' (Some cause))) (),
                 connected p c1, e')
            | (Callback None u, e') \<Rightarrow> (Callback None (), (connected p c1)\<lparr>opened := True\<rparr>, e')
            | (other, e') \<Rightarrow> (other, connected p c1, e'))"
proof -
  have o: "SqliteConnection_isOpen c1"
    using assms(4) by (simp add: SqliteConnection_isOpen_def getConnection_def)
  show ?thesis
    unfolding open_reaches_openCurl [OF assms(1-3)]
    by (rule openCurl_connected [OF _ o]) (simp_all add: connected_def)
qed

lemma client_connected: "client (connected p c) = getConnection c"
  and statements_connected: "schemaStatements (connected p c) = schemaStatements p"
  and tableName_connected: "tableName (connected p c) = tableName p"
  by (simp_all add: connected_def)

text \<open>
  C2, as amended: \<open>open\<close> on a component that is not opened yet, once its connection is
  open on a handle, first asks the driver \<open>SELECT * FROM <table> LIMIT 1\<close>, unless there is
  no schema statement, in which case it succeeds at once. If the probe succeeds, no schema
  statement is executed and \<open>open\<close> succeeds. If the probe fails with an error whose
  message does not contain \<open>no such table\<close>, no schema statement is executed and \<open>open\<close>
  fails with the \<open>ConnectionException\<close> \<open>CONNECT_FAILED\<close> made from that error by
  \<open>withCause\<close>. If the
  message contains \<open>no such table\<close>, the schema statements are executed in order, each in
  the world the one before has left, up to and including the first that fails: \<open>open\<close>
  succeeds when all were executed without error, and fails with the \<open>CONNECT_FAILED\<close>
  exception made from the error of the failing statement otherwise. So a schema statement
  is executed if and only if the probe failed with \<open>no such table\<close>.
\<close>

theorem schema_on_open:
  "\<not> opened p \<Longrightarrow>
   c = (case connection p of Some x \<Rightarrow> x | None \<Rightarrow> createConnection p) \<Longrightarrow>
   (if localConnection p \<or> connection p = None
    then SqliteConnection_open drv True c e = (Callback None (), c_open, e_open)
    else c_open = c \<and> e_open = e) \<Longrightarrow>
   getConnection c_open = Some h \<Longrightarrow>
   probe = ''SELECT * FROM '' @ to_string (quoteIdentifier (tableName p)) @ '' LIMIT 1'' \<Longrightarrow>
   R = SqlitePersistence_open drv True p e \<Longrightarrow>
     (schemaStatements p = [] \<longrightarrow>
        R = (Callback None (), (connected p c_open)\<lparr>opened := True\<rparr>, e_open))
   \<and> (schemaStatements p \<noteq> [] \<and> db_get drv h probe [] (world e_open) = ((None, found), w) \<longrightarrow>
        R = (Callback None (), (connected p c_open)\<lparr>opened := True\<rparr>,
             \<lparr>world = w, issued = issued e_open @ [DbGet h probe []]\<rparr>))
   \<and> (schemaStatements p \<noteq> [] \<and> db_get drv h probe [] (world e_open) = ((Some err, found), w)
        \<and> \<not> (\<exists>m. message err = Some m \<and> sublist ''no such table'' m) \<longrightarrow>
        R = (Callback (Some (ConnectionException ''CONNECT_FAILED''
                               ''Connection to sqlite failed'' (Some err))) (),
             connected p c_open, \<lparr>world = w, issued = issued e_open @ [DbGet h probe []]\<rparr>))
   \<and> (schemaStatements p \<noteq> [] \<and> db_get drv h probe [] (world e_open) = ((Some err, found), w)
        \<and> message err = Some m \<and> sublist ''no such table'' m \<longrightarrow>
        (\<exists>k. 0 < k \<and> k \<le> length (schemaStatements p)
           \<and> (\<forall>i < k - 1. fst (exec_all drv h (schemaStatements p) w ! i) = None)
           \<and> snd (snd R)
               = \<lparr>world = snd (exec_all drv h (schemaStatements p) w ! (k - 1)),
                  issued = issued e_open
                             @ DbGet h probe [] # map (DbExec h) (take k (schemaStatements p))\<rparr>
           \<and> (case fst (exec_all drv h (schemaStatements p) w ! (k - 1)) of
                None \<Rightarrow>
                  k = length (schemaStatements p) \<and> fst R = Callback None ()
                  \<and> fst (snd R) = (connected p c_open)\<lparr>opened := True\<rparr>
              | Some cause \<Rightarrow>
                  fst R = Callback (Some (ConnectionException ''CONNECT_FAILED''
                                            ''Connection to sqlite failed'' (Some cause))) ()
                  \<and> fst (snd R) = connected p c_open)))"
proof -
  assume a: "\<not> opened p"
    "c = (case connection p of Some x \<Rightarrow> x | None \<Rightarrow> createConnection p)"
    "if localConnection p \<or> connection p = None
     then SqliteConnection_open drv True c e = (Callback None (), c_open, e_open)
     else c_open = c \<and> e_open = e"
    "getConnection c_open = Some h"
    and probe: "probe = ''SELECT * FROM '' @ to_string (quoteIdentifier (tableName p)) @ '' LIMIT 1''"
    and R: "R = SqlitePersistence_open drv True p e"
  note red = open_to_schema [OF a]
  let ?p = "connected p c_open"
  have cl: "client ?p = Some h"
    using a(4) by (simp add: client_connected)
  have closed: "\<not> opened ?p"
    by (simp add: connected_def)
  show ?thesis
  proof (intro conjI impI)
    assume "schemaStatements p = []"
    then show "R = (Callback None (), ?p\<lparr>opened := True\<rparr>, e_open)"
      unfolding R red by (simp add: createSchema_empty statements_connected)
  next
    assume "schemaStatements p \<noteq> [] \<and> db_get drv h probe [] (world e_open) = ((None, found), w)"
    then have "createSchema drv ?p e_open
                 = (Callback None (), \<lparr>world = w, issued = issued e_open @ [DbGet h probe []]\<rparr>)"
      using createSchema_exists [of ?p h drv e_open found
          "\<lparr>world = w, issued = issued e_open @ [DbGet h probe []]\<rparr>"] cl probe
      by (simp add: statements_connected tableName_connected client_get_def)
    then show "R = (Callback None (), ?p\<lparr>opened := True\<rparr>,
             \<lparr>world = w, issued = issued e_open @ [DbGet h probe []]\<rparr>)"
      unfolding R red by simp
  next
    assume "schemaStatements p \<noteq> [] \<and> db_get drv h probe [] (world e_open) = ((Some err, found), w)
        \<and> \<not> (\<exists>m. message err = Some m \<and> sublist ''no such table'' m)"
    then have "createSchema drv ?p e_open
                 = (Callback (Some err) (), \<lparr>world = w, issued = issued e_open @ [DbGet h probe []]\<rparr>)"
      using createSchema_other_error [of ?p h drv e_open err found
          "\<lparr>world = w, issued = issued e_open @ [DbGet h probe []]\<rparr>"] cl probe
      by (simp add: statements_connected tableName_connected client_get_def no_such_table_iff)
    then show "R = (Callback (Some (ConnectionException ''CONNECT_FAILED''
                               ''Connection to sqlite failed'' (Some err))) (),
             ?p, \<lparr>world = w, issued = issued e_open @ [DbGet h probe []]\<rparr>)"
      unfolding R red by simp
  next
    assume h: "schemaStatements p \<noteq> [] \<and> db_get drv h probe [] (world e_open) = ((Some err, found), w)
        \<and> message err = Some m \<and> sublist ''no such table'' m"
    let ?e2 = "\<lparr>world = w, issued = issued e_open @ [DbGet h probe []]\<rparr>"
    obtain r e3 where x: "execEach drv h (schemaStatements p) ?e2 = (r, e3)"
      by (cases "execEach drv h (schemaStatements p) ?e2")
    from h have "no_such_table err"
      by (auto simp: no_such_table_iff)
    with h have cs: "createSchema drv ?p e_open = (Callback r (), e3)"
      using createSchema_missing [of ?p h drv e_open err found ?e2] cl probe x
      by (simp add: statements_connected tableName_connected client_get_def)
    from h have ne: "schemaStatements p \<noteq> []"
      by simp
    have "\<exists>k. 0 < k \<and> k \<le> length (schemaStatements p)
            \<and> (\<forall>i < k - 1. fst (exec_all drv h (schemaStatements p) w ! i) = None)
            \<and> r = fst (exec_all drv h (schemaStatements p) w ! (k - 1))
            \<and> e3 = \<lparr>world = snd (exec_all drv h (schemaStatements p) w ! (k - 1)),
                     issued = (issued e_open @ [DbGet h probe []])
                                @ map (DbExec h) (take k (schemaStatements p))\<rparr>
            \<and> (r = None \<longrightarrow> k = length (schemaStatements p))"
      using execEach_trace [OF ne x] by simp
    then obtain k where k:
      "0 < k" "k \<le> length (schemaStatements p)"
      "\<forall>i < k - 1. fst (exec_all drv h (schemaStatements p) w ! i) = None"
      "r = fst (exec_all drv h (schemaStatements p) w ! (k - 1))"
      "e3 = \<lparr>world = snd (exec_all drv h (schemaStatements p) w ! (k - 1)),
             issued = (issued e_open @ [DbGet h probe []])
                        @ map (DbExec h) (take k (schemaStatements p))\<rparr>"
      "r = None \<longrightarrow> k = length (schemaStatements p)"
      by (elim exE conjE) (rule that; assumption)
    have out: "case r of
                 None \<Rightarrow>
                   k = length (schemaStatements p) \<and> fst R = Callback None ()
                   \<and> fst (snd R) = ?p\<lparr>opened := True\<rparr>
               | Some cause \<Rightarrow>
                   fst R = Callback (Some (ConnectionException ''CONNECT_FAILED''
                                             ''Connection to sqlite failed'' (Some cause))) ()
                   \<and> fst (snd R) = ?p"
      unfolding R red cs using k(6) by (cases r) simp_all
    have env: "snd (snd R) = e3"
      unfolding R red cs by (cases r) simp_all
    show "\<exists>k. 0 < k \<and> k \<le> length (schemaStatements p)
           \<and> (\<forall>i < k - 1. fst (exec_all drv h (schemaStatements p) w ! i) = None)
           \<and> snd (snd R)
               = \<lparr>world = snd (exec_all drv h (schemaStatements p) w ! (k - 1)),
                  issued = issued e_open
                             @ DbGet h probe [] # map (DbExec h) (take k (schemaStatements p))\<rparr>
           \<and> (case fst (exec_all drv h (schemaStatements p) w ! (k - 1)) of
                None \<Rightarrow>
                  k = length (schemaStatements p) \<and> fst R = Callback None ()
                  \<and> fst (snd R) = ?p\<lparr>opened := True\<rparr>
              | Some cause \<Rightarrow>
                  fst R = Callback (Some (ConnectionException ''CONNECT_FAILED''
                                            ''Connection to sqlite failed'' (Some cause))) ()
                  \<and> fst (snd R) = ?p)"
    proof (intro exI [of _ k] conjI)
      show "0 < k" by (rule k(1))
      show "k \<le> length (schemaStatements p)" by (rule k(2))
      show "\<forall>i < k - 1. fst (exec_all drv h (schemaStatements p) w ! i) = None" by (rule k(3))
      show "snd (snd R)
               = \<lparr>world = snd (exec_all drv h (schemaStatements p) w ! (k - 1)),
                  issued = issued e_open
                             @ DbGet h probe [] # map (DbExec h) (take k (schemaStatements p))\<rparr>"
        unfolding env using k(5) by simp
      show "case fst (exec_all drv h (schemaStatements p) w ! (k - 1)) of
                None \<Rightarrow>
                  k = length (schemaStatements p) \<and> fst R = Callback None ()
                  \<and> fst (snd R) = ?p\<lparr>opened := True\<rparr>
              | Some cause \<Rightarrow>
                  fst R = Callback (Some (ConnectionException ''CONNECT_FAILED''
                                            ''Connection to sqlite failed'' (Some cause))) ()
                  \<and> fst (snd R) = ?p"
        using out unfolding k(4) .
    qed
  qed
qed

lemmas open_defs = SqlitePersistence_open_def openCurl_def createSchema_def defineSchema_def
  createConnection_def setReferences_def ensureSchema_def configure_def no_such_table_def
  indexOf_def SqliteConnection_open_def SqliteConnection_configure_def SqliteConnection_isOpen_def
  getConnection_def getDatabaseName_def new_SqliteConnection_def client_connect_def
  client_get_def client_exec_def resolve_def validateConnections_def validateConnection_def
  composeConfig_def composeStep_def getUri_def getDatabase_def get_param_def by_database_def opened_connection_def shared_dummies_def
  local_dummies_def create_table_def create_index_def

theorem schema_on_open_witness:
  "fst (SqlitePersistence_open scripted True shared_dummies (start [])) = Callback None ()
   \<and> issued (snd (snd (SqlitePersistence_open scripted True shared_dummies (start []))))
     = [DbGet 1 (''SELECT * FROM '' @ [dquote] @ ''dummies'' @ [dquote] @ '' LIMIT 1'') []]
   \<and> SqlitePersistence_open scripted True local_dummies
         (start [(None, []), (Some (Error (Some ''SQLITE_ERROR: no such table: dummies'')), [])])
     = (Callback None (), (connected local_dummies opened_connection)\<lparr>opened := True\<rparr>,
        \<lparr>world = [],
         issued = [DbConnect (Some ''./data/test.db''),
                   DbGet 1 (''SELECT * FROM '' @ [dquote] @ ''dummies'' @ [dquote] @ '' LIMIT 1'') [],
                   DbExec 1 create_table, DbExec 1 create_index]\<rparr>)
   \<and> SqlitePersistence_open scripted True
         (setReferences (Some opened_connection) (new_SqlitePersistence (Str ''dummies''))) (start [])
     = (Callback None (),
        (connected (setReferences (Some opened_connection) (new_SqlitePersistence (Str ''dummies'')))
           opened_connection)\<lparr>opened := True\<rparr>,
        start [])
   \<and> SqlitePersistence_open scripted True shared_dummies
         (start [(Some (Error (Some ''SQLITE_ERROR: no such table: dummies'')), []),
                 (Some (Error (Some ''disk is full'')), [])])
     = (Callback (Some (ConnectionException ''CONNECT_FAILED'' ''Connection to sqlite failed''
                          (Some (Error (Some ''disk is full''))))) (),
        connected shared_dummies opened_connection,
        \<lparr>world = [],
         issued = [DbGet 1 (''SELECT * FROM '' @ [dquote] @ ''dummies'' @ [dquote] @ '' LIMIT 1'') [],
                   DbExec 1 create_table]\<rparr>)"
  using schema_on_open [where p = shared_dummies and c = opened_connection and drv = scripted
      and e = "start []" and c_open = opened_connection and e_open = "start []" and h = 1
      and probe = "''SELECT * FROM '' @ [dquote] @ ''dummies'' @ [dquote] @ '' LIMIT 1''"
      and R = "SqlitePersistence_open scripted True shared_dummies (start [])"
      and found = None and w = "[]"]
    schema_on_open [where p = local_dummies and c = "createConnection local_dummies"
      and drv = scripted
      and e = "start [(None, []),
                      (Some (Error (Some ''SQLITE_ERROR: no such table: dummies'')), [])]"
      and c_open = opened_connection
      and e_open = "\<lparr>world = [(Some (Error (Some ''SQLITE_ERROR: no such table: dummies'')), [])],
                issued = [DbConnect (Some ''./data/test.db'')]\<rparr>"
      and h = 1
      and probe = "''SELECT * FROM '' @ [dquote] @ ''dummies'' @ [dquote] @ '' LIMIT 1''"
      and R = "SqlitePersistence_open scripted True local_dummies
                 (start [(None, []),
                         (Some (Error (Some ''SQLITE_ERROR: no such table: dummies'')), [])])"
      and err = "Error (Some ''SQLITE_ERROR: no such table: dummies'')" and found = None
      and w = "[]" and m = "''SQLITE_ERROR: no such table: dummies''"]
    schema_on_open [where p = "setReferences (Some opened_connection)
                                 (new_SqlitePersistence (Str ''dummies''))"
      and c = opened_connection and drv = scripted
      and e = "start []" and c_open = opened_connection and e_open = "start []" and h = 1
      and probe = "''SELECT * FROM '' @ [dquote] @ ''dummies'' @ [dquote] @ '' LIMIT 1''"
      and R = "SqlitePersistence_open scripted True
                 (setReferences (Some opened_connection) (new_SqlitePersistence (Str ''dummies'')))
                 (start [])"]
    schema_on_open [where p = shared_dummies and c = opened_connection and drv = scripted
      and e = "start [(Some (Error (Some ''SQLITE_ERROR: no such table: dummies'')), []),
                      (Some (Error (Some ''disk is full'')), [])]"
      and c_open = opened_connection
      and e_open = "start [(Some (Error (Some ''SQLITE_ERROR: no such table: dummies'')), []),
                           (Some (Error (Some ''disk is full'')), [])]"
      and h = 1
      and probe = "''SELECT * FROM '' @ [dquote] @ ''dummies'' @ [dquote] @ '' LIMIT 1''"
      and R = "SqlitePersistence_open scripted True shared_dummies
                 (start [(Some (Error (Some ''SQLITE_ERROR: no such table: dummies'')), []),
                         (Some (Error (Some ''disk is full'')), [])])"
      and err = "Error (Some ''SQLITE_ERROR: no such table: dummies'')" and found = None
      and w = "[(Some (Error (Some ''disk is full'')), [])]"
      and m = "''SQLITE_ERROR: no such table: dummies''"]
  by (simp add: open_defs run_defs connected_def)

text \<open>
  The claim as it stands says that \<open>open\<close> fails with the error of the probe. It fails
  with another error object, the \<open>CONNECT_FAILED\<close> exception that \<open>open\<close> makes from the
  error of the probe: here the probe of a table reports \<open>disk I/O error\<close>.
\<close>

theorem open_wraps_probe_error:
  "fst (db_get scripted 1 (''SELECT * FROM '' @ [dquote] @ ''dummies'' @ [dquote] @ '' LIMIT 1'') []
          [(Some (Error (Some ''disk I/O error'')), [])])
     = (Some (Error (Some ''disk I/O error'')), None)
   \<and> fst (SqlitePersistence_open scripted True shared_dummies
              (start [(Some (Error (Some ''disk I/O error'')), [])]))
     = Callback (Some (ConnectionException ''CONNECT_FAILED'' ''Connection to sqlite failed''
                         (Some (Error (Some ''disk I/O error''))))) ()
   \<and> fst (SqlitePersistence_open scripted True shared_dummies
              (start [(Some (Error (Some ''disk I/O error'')), [])]))
     \<noteq> Callback (Some (Error (Some ''disk I/O error''))) ()
   \<and> issued (snd (snd (SqlitePersistence_open scripted True shared_dummies
                          (start [(Some (Error (Some ''disk I/O error'')), [])]))))
     = [DbGet 1 (''SELECT * FROM '' @ [dquote] @ ''dummies'' @ [dquote] @ '' LIMIT 1'') []]"
  by (simp add: open_defs run_defs)

subsection \<open>Quoting identifiers\<close>

text \<open>
  C10: \<open>quoteIdentifier\<close> is idempotent. A missing value (\<open>null\<close>, \<open>undefined\<close>) and the
  empty string come back unchanged, a string that starts with a double quote comes back
  as it is, and every other string comes back between two double quotes.
\<close>

theorem quoteIdentifier_idempotent:
  "quoteIdentifier (quoteIdentifier v) = quoteIdentifier v
   \<and> quoteIdentifier Null = Null
   \<and> quoteIdentifier Undefined = Undefined
   \<and> quoteIdentifier (Str []) = Str []
   \<and> (s \<noteq> [] \<and> hd s = dquote \<longrightarrow> quoteIdentifier (Str s) = Str s)
   \<and> (t \<noteq> [] \<and> hd t \<noteq> dquote \<longrightarrow> quoteIdentifier (Str t) = Str ([dquote] @ t @ [dquote]))"
  by (cases v) auto

theorem quoteIdentifier_idempotent_witness:
  "quoteIdentifier (quoteIdentifier (Str ''ab'')) = quoteIdentifier (Str ''ab'')
   \<and> quoteIdentifier (Str [dquote, CHR ''a'', dquote]) = Str [dquote, CHR ''a'', dquote]
   \<and> quoteIdentifier (Str ''ab'') = Str ([dquote] @ ''ab'' @ [dquote])"
  using quoteIdentifier_idempotent [of "Str ''ab''" "[dquote, CHR ''a'', dquote]" "''ab''"]
  by (simp add: dquote_def)

subsection \<open>Column, parameter and value lists\<close>

lemma join_Cons: "join sep (x # xs) = x @ concat (map (\<lambda>y. sep @ y) xs)"
  by (induction xs arbitrary: x) auto

text \<open>Once the result is not empty, every round of the loop puts the separator first.\<close>

lemma loop_nonempty:
  "acc \<noteq> [] \<Longrightarrow>
   fold (\<lambda>v result. (if result \<noteq> [] then result @ sep else result) @ f v) xs acc
     = acc @ concat (map (\<lambda>v. sep @ f v) xs)"
  by (induction xs arbitrary: acc) auto

lemma loop_join:
  assumes "xs \<noteq> [] \<longrightarrow> f (hd xs) \<noteq> []"
  shows "fold (\<lambda>v result. (if result \<noteq> [] then result @ sep else result) @ f v) xs []
           = join sep (map f xs)"
proof (cases xs)
  case Nil
  then show ?thesis by simp
next
  case (Cons x xs')
  with assms have "f x \<noteq> []" by simp
  then show ?thesis using Cons by (simp add: loop_nonempty join_Cons comp_def)
qed

lemma generateColumns_join:
  assumes "row \<noteq> [] \<longrightarrow> fst (hd row) \<noteq> []"
  shows "generateColumns (Object row)
           = join '','' (map (\<lambda>(k, v). to_string (quoteIdentifier (Str k))) row)"
proof -
  have "map fst row \<noteq> [] \<longrightarrow> to_string (quoteIdentifier (Str (hd (map fst row)))) \<noteq> []"
    using assms by (cases row) auto
  from loop_join [where f = "\<lambda>k. to_string (quoteIdentifier (Str k))" and xs = "map fst row"
      and sep = "'',''", OF this]
  show ?thesis by (simp add: generateColumns_def comp_def case_prod_unfold)
qed

lemma generateParameters_join:
  "generateParameters (Object row) = join '','' (map (\<lambda>(k, v). ''?'') row)"
  using loop_join [where f = "\<lambda>k. ''?''" and xs = "map fst row" and sep = "'',''"]
  by (simp add: comp_def case_prod_unfold)

lemma generateSetParameters_join:
  "generateSetParameters row
     = join '','' (map (\<lambda>(k, v). to_string (quoteIdentifier (Str k)) @ ''=?'') row)"
  using loop_join [where f = "\<lambda>k. to_string (quoteIdentifier (Str k)) @ ''=?''"
      and xs = "map fst row" and sep = "'',''"]
  by (simp add: generateSetParameters_def comp_def case_prod_unfold)

text \<open>
  For every key-value row map with \<open>n\<close> keys whose first key is not the empty string,
  \<open>generateColumns\<close> returns the \<open>n\<close> keys quoted and joined by commas,
  \<open>generateParameters\<close> returns \<open>n\<close> placeholders \<open>?\<close> joined by commas,
  \<open>generateSetParameters\<close> returns \<open>n\<close> terms \<open>key=?\<close> with the key quoted, joined by commas,
  and \<open>generateValues\<close> returns the \<open>n\<close> values. All four go through the entries of the
  row in the same order: each list is the image of the row under a map, so that the
  term at an index comes from the entry of the row at that index. The last three are so
  for every row.
\<close>

lemma generated_lists_aligned:
  "(row \<noteq> [] \<longrightarrow> fst (hd row) \<noteq> []) \<Longrightarrow>
     generateColumns (Object row)
       = join '','' (map (\<lambda>(k, v). to_string (quoteIdentifier (Str k))) row)
   \<and> generateParameters (Object row :: string js_values) = join '','' (map (\<lambda>(k, v). ''?'') row)
   \<and> generateSetParameters row
       = join '','' (map (\<lambda>(k, v). to_string (quoteIdentifier (Str k)) @ ''=?'') row)
   \<and> generateValues row = map (\<lambda>(k, v). v) row
   \<and> length (generateValues row) = length row
   \<and> (\<forall>i < length row. generateValues row ! i = snd (row ! i))"
proof -
  assume first: "row \<noteq> [] \<longrightarrow> fst (hd row) \<noteq> []"
  have vals: "generateValues row = map (\<lambda>(k, v). v) row"
    by (simp add: generateValues_def case_prod_unfold)
  have "\<forall>i < length row. generateValues row ! i = snd (row ! i)"
    by (simp add: generateValues_def)
  moreover have "length (generateValues row) = length row"
    by (simp add: generateValues_def)
  ultimately show ?thesis
    using generateColumns_join [OF first] generateParameters_join [of row]
      generateSetParameters_join [of row] vals
    by blast
qed

lemma generated_lists_aligned_example:
  "generateColumns (Object [(''id'', JStr ''1''), (''key'', JStr ''k'')])
     = [dquote] @ ''id'' @ [dquote] @ '','' @ [dquote] @ ''key'' @ [dquote]
   \<and> generateParameters (Object [(''id'', JStr ''1''), (''key'', JStr ''k'')] :: string js_values)
     = ''?,?''
   \<and> generateSetParameters [(''id'', JStr ''1''), (''key'', JStr ''k'')]
     = [dquote] @ ''id'' @ [dquote] @ ''=?,'' @ [dquote] @ ''key'' @ [dquote] @ ''=?''
   \<and> generateValues [(''id'', JStr ''1''), (''key'', JStr ''k'')] = [JStr ''1'', JStr ''k'']"
  using generated_lists_aligned [of "[(''id'', JStr ''1''), (''key'', JStr ''k'')]"]
  by (simp add: dquote_def)

text \<open>
  C4: the four lists are not aligned on every row. The loop of \<open>generateColumns\<close> takes
  an empty result for the sign that it is at the first key. For a row whose first key
  is the empty string, \<open>quoteIdentifier\<close> leaves that key empty, the result is still
  empty when the second key comes, and no comma is put before it: the row
  \<open>{"": 1, "a": 2}\<close> gives the one column \<open>"a"\<close>, not the two keys joined by a comma, while
  \<open>generateParameters\<close> gives two placeholders, \<open>generateSetParameters\<close> two terms and
  \<open>generateValues\<close> two values for it.
\<close>

theorem generateColumns_empty_first_key:
  "generateColumns (Object [('''', JNum 1), (''a'', JNum 2)]) = [dquote, CHR ''a'', dquote]
   \<and> generateColumns (Object [('''', JNum 1), (''a'', JNum 2)])
       \<noteq> join '','' [to_string (quoteIdentifier (Str '''')),
                      to_string (quoteIdentifier (Str ''a''))]
   \<and> generateParameters (Object [('''', JNum 1), (''a'', JNum 2)] :: string js_values) = ''?,?''
   \<and> generateSetParameters [('''', JNum 1), (''a'', JNum 2)]
       = ''=?,'' @ [dquote, CHR ''a'', dquote] @ ''=?''
   \<and> generateValues [('''', JNum 1), (''a'', JNum 2)] = [JNum 1, JNum 2]"
  by (simp add: generateColumns_def generateSetParameters_def generateValues_def dquote_def)

subsection \<open>Statements by filter\<close>

lemma where_clause_cases:
  "where_clause f = (if f = None \<or> f = Some [] then [] else '' WHERE '' @ the f)"
  by (cases f) (auto simp: where_clause_def)

text \<open>
  C6: for every filter string \<open>f\<close>, the statement that \<open>getListByFilter\<close>,
  \<open>getCountByFilter\<close> and \<open>deleteByFilter\<close> build has a \<open>WHERE\<close> clause, with exactly \<open>f\<close>
  after it, if and only if \<open>f\<close> is neither \<open>null\<close> nor empty. Each of the three sends this
  one statement to the driver and no other, leaves the world as the driver leaves it
  after that statement, and reports what the driver answers to it: the rows found, the
  count found, or the error. So with a \<open>null\<close> or empty filter \<open>deleteByFilter\<close> has the
  driver run the unconditional \<open>DELETE FROM <table>\<close>, after which the table is as the driver
  leaves it after that statement, and \<open>getCountByFilter\<close> delivers what the driver finds
  for the unconditional \<open>SELECT COUNT(*) AS count FROM <table>\<close>.
\<close>

theorem filter_where_clause:
  "client p = Some h \<Longrightarrow>
   clause = (if f = None \<or> f = Some [] then [] else '' WHERE '' @ the f) \<Longrightarrow>
   list_query = ''SELECT '' @ select_or_star sel @ '' FROM ''
                  @ to_string (quoteIdentifier (tableName p)) @ clause @ order_clause srt \<Longrightarrow>
   count_query = ''SELECT COUNT(*) AS count FROM ''
                   @ to_string (quoteIdentifier (tableName p)) @ clause \<Longrightarrow>
   delete_query = ''DELETE FROM '' @ to_string (quoteIdentifier (tableName p)) @ clause \<Longrightarrow>
     getListByFilter drv p f srt sel e
       = (case fst (db_all drv h list_query [] (world e)) of
            (Some err, rows) \<Rightarrow> Callback (Some err) None
          | (None, rows) \<Rightarrow> Callback None (Some (map_items rows)),
          \<lparr>world = snd (db_all drv h list_query [] (world e)),
           issued = issued e @ [DbAll h list_query []]\<rparr>)
   \<and> getCountByFilter drv toLong p f e
       = (case fst (db_get drv h count_query [] (world e)) of
            (Some err, found) \<Rightarrow> Callback (Some err) None
          | (None, found) \<Rightarrow> Callback None (Some (count_of toLong found)),
          \<lparr>world = snd (db_get drv h count_query [] (world e)),
           issued = issued e @ [DbGet h count_query []]\<rparr>)
   \<and> deleteByFilter drv cb p f e
       = (if cb then Callback (fst (db_run drv h delete_query [] (world e))) () else NoCallback,
          \<lparr>world = snd (db_run drv h delete_query [] (world e)),
           issued = issued e @ [DbRun h delete_query []]\<rparr>)"
  by (auto simp: getListByFilter_def getCountByFilter_def deleteByFilter_def client_defs
      where_clause_cases Let_def split: prod.splits option.splits)

theorem filter_where_clause_witness:
  "getListByFilter scripted dummies (Some ''key=1'') None None (start [(None, [seven])])
     = (Callback None (Some [seven]),
        \<lparr>world = [],
         issued = [DbAll 1 (''SELECT * FROM '' @ [dquote] @ ''dummies'' @ [dquote]
                              @ '' WHERE key=1'') []]\<rparr>)
   \<and> getCountByFilter scripted number_or_zero dummies (Some ''key=1'')
         (start [(None, [[(''count'', JNum 1)]])])
     = (Callback None (Some 1),
        \<lparr>world = [],
         issued = [DbGet 1 (''SELECT COUNT(*) AS count FROM '' @ [dquote] @ ''dummies'' @ [dquote]
                              @ '' WHERE key=1'') []]\<rparr>)
   \<and> getCountByFilter one_table number_or_zero dummies (Some [])
         \<lparr>world = [seven, unsaved], issued = []\<rparr>
     = (Callback None (Some 2),
        \<lparr>world = [seven, unsaved],
         issued = [DbGet 1 (''SELECT COUNT(*) AS count FROM '' @ [dquote] @ ''dummies''
                              @ [dquote]) []]\<rparr>)
   \<and> deleteByFilter one_table True dummies None \<lparr>world = [seven, unsaved], issued = []\<rparr>
     = (Callback None (),
        \<lparr>world = [],
         issued = [DbRun 1 (''DELETE FROM '' @ [dquote] @ ''dummies'' @ [dquote]) []]\<rparr>)
   \<and> deleteByFilter one_table True dummies (Some []) \<lparr>world = [seven, unsaved], issued = []\<rparr>
     = (Callback None (),
        \<lparr>world = [],
         issued = [DbRun 1 (''DELETE FROM '' @ [dquote] @ ''dummies'' @ [dquote]) []]\<rparr>)"
proof -
  note ev = run_defs one_table_def select_or_star_def order_clause_def map_items_def
    convertToPublic_def count_of_def get_prop_def number_or_zero_def seven_def unsaved_def
  have "getListByFilter scripted dummies (Some ''key=1'') None None (start [(None, [seven])])
     = (Callback None (Some [seven]),
        \<lparr>world = [],
         issued = [DbAll 1 (''SELECT * FROM '' @ [dquote] @ ''dummies'' @ [dquote]
                              @ '' WHERE key=1'') []]\<rparr>)"
    using filter_where_clause [where p = dummies and h = 1 and drv = scripted
        and f = "Some ''key=1''" and srt = None and sel = None
        and e = "start [(None, [seven])]", OF _ refl refl refl refl, THEN conjunct1]
    by (simp add: ev)
  moreover have "getCountByFilter scripted number_or_zero dummies (Some ''key=1'')
         (start [(None, [[(''count'', JNum 1)]])])
     = (Callback None (Some 1),
        \<lparr>world = [],
         issued = [DbGet 1 (''SELECT COUNT(*) AS count FROM '' @ [dquote] @ ''dummies'' @ [dquote]
                              @ '' WHERE key=1'') []]\<rparr>)"
    using filter_where_clause [where p = dummies and h = 1 and drv = scripted
        and f = "Some ''key=1''" and toLong = number_or_zero
        and e = "start [(None, [[(''count'', JNum 1)]])]", OF _ refl refl refl refl,
        THEN conjunct2, THEN conjunct1]
    by (simp add: ev)
  moreover have "getCountByFilter one_table number_or_zero dummies (Some [])
         \<lparr>world = [seven, unsaved], issued = []\<rparr>
     = (Callback None (Some 2),
        \<lparr>world = [seven, unsaved],
         issued = [DbGet 1 (''SELECT COUNT(*) AS count FROM '' @ [dquote] @ ''dummies''
                              @ [dquote]) []]\<rparr>)"
    using filter_where_clause [where p = dummies and h = 1 and drv = one_table
        and f = "Some []" and toLong = number_or_zero
        and e = "\<lparr>world = [seven, unsaved], issued = []\<rparr>", OF _ refl refl refl refl,
        THEN conjunct2, THEN conjunct1]
    by (simp add: ev)
  moreover have "deleteByFilter one_table True dummies None
         \<lparr>world = [seven, unsaved], issued = []\<rparr>
     = (Callback None (),
        \<lparr>world = [],
         issued = [DbRun 1 (''DELETE FROM '' @ [dquote] @ ''dummies'' @ [dquote]) []]\<rparr>)"
    using filter_where_clause [where p = dummies and h = 1 and drv = one_table
        and f = None and cb = True
        and e = "\<lparr>world = [seven, unsaved], issued = []\<rparr>", OF _ refl refl refl refl,
        THEN conjunct2, THEN conjunct2]
    by (simp add: ev)
  moreover have "deleteByFilter one_table True dummies (Some [])
         \<lparr>world = [seven, unsaved], issued = []\<rparr>
     = (Callback None (),
        \<lparr>world = [],
         issued = [DbRun 1 (''DELETE FROM '' @ [dquote] @ ''dummies'' @ [dquote]) []]\<rparr>)"
    using filter_where_clause [where p = dummies and h = 1 and drv = one_table
        and f = "Some []" and cb = True
        and e = "\<lparr>world = [seven, unsaved], issued = []\<rparr>", OF _ refl refl refl refl,
        THEN conjunct2, THEN conjunct2]
    by (simp add: ev)
  ultimately show ?thesis
    by (intro conjI)
qed

text \<open>
  C3: for every filter, paging parameters and sort, the statement that \<open>getPageByFilter\<close>
  sends first ends with \<open>LIMIT\<close> and \<open>paging.getTake(maxPageSize)\<close>, followed by \<open>OFFSET\<close> and
  \<open>paging.getSkip(-1)\<close> exactly when that is not negative. A page that is returned has a
  total if and only if \<open>paging.total\<close> is set, and the total is then the count that
  \<open>getCountByFilter\<close> delivers for the same filter right after the page was read. Without
  \<open>paging.total\<close> the page has no total and nothing is counted. The page size is \<open>100\<close> in
  a new component; \<open>configure\<close> sets it to \<open>options.max_page_size\<close>, or to \<open>100\<close> when the
  option is absent.
\<close>

theorem page_limit_offset_total:
  "client p = Some h \<Longrightarrow>
   pg = (case paging of Some x \<Rightarrow> x | None \<Rightarrow> new_PagingParams) \<Longrightarrow>
   query = ''SELECT '' @ select_or_star sel @ '' FROM '' @ to_string (quoteIdentifier (tableName p))
             @ where_clause f @ order_clause srt
             @ '' LIMIT '' @ number_to_string (getTake pg (maxPageSize p))
             @ (if getSkip pg (- 1) \<ge> 0
                then '' OFFSET '' @ number_to_string (getSkip pg (- 1)) else []) \<Longrightarrow>
   R = getPageByFilter drv toLong p f paging srt sel e \<Longrightarrow>
     (\<exists>rest. issued (snd R) = issued e @ DbAll h query [] # rest)
   \<and> (fst R = Callback None (Some page) \<longrightarrow> (page_total page \<noteq> None) = paging_total pg)
   \<and> (fst R = Callback None (Some page) \<and> paging_total pg \<longrightarrow>
        getCountByFilter drv toLong p f (snd (client_all drv h query [] e))
          = (Callback None (page_total page), snd R))
   \<and> (fst (fst (client_all drv h query [] e)) = None \<and> \<not> paging_total pg \<longrightarrow>
        R = (Callback None (Some \<lparr>page_data = map_items (snd (fst (client_all drv h query [] e))),
                                  page_total = None\<rparr>),
             snd (client_all drv h query [] e)))
   \<and> maxPageSize (new_SqlitePersistence t :: 'h sqlite_persistence) = 100
   \<and> maxPageSize (configure cfg p)
        = (case param_max_page_size cfg of Given n \<Rightarrow> n | Absent \<Rightarrow> 100 | Invalid \<Rightarrow> maxPageSize p)"
  by (auto simp: getPageByFilter_def getCountByFilter_def client_defs Let_def
        new_SqlitePersistence_def configure_def
      split: prod.splits option.splits setting.splits)

theorem page_limit_offset_total_witness:
  "getPageByFilter scripted number_or_zero dummies (Some ''key=1'') (Some first_ten_after_five)
       None None (start [(None, [[(''id'', JStr ''1'')]]), (None, [[(''count'', JNum 1)]])])
     = (Callback None (Some \<lparr>page_data = [[(''id'', JStr ''1'')]], page_total = Some 1\<rparr>),
        \<lparr>world = [],
         issued = [DbAll 1 (''SELECT * FROM '' @ [dquote] @ ''dummies'' @ [dquote]
                              @ '' WHERE key=1 LIMIT 10 OFFSET 5'') [],
                   DbGet 1 (''SELECT COUNT(*) AS count FROM '' @ [dquote] @ ''dummies'' @ [dquote]
                              @ '' WHERE key=1'') []]\<rparr>)"
  using page_limit_offset_total [where p = dummies and h = 1 and drv = scripted
      and paging = "Some first_ten_after_five" and pg = first_ten_after_five
      and f = "Some ''key=1''" and srt = None and sel = None and toLong = number_or_zero
      and e = "start [(None, [[(''id'', JStr ''1'')]]), (None, [[(''count'', JNum 1)]])]"
      and query = "''SELECT * FROM '' @ [dquote] @ ''dummies'' @ [dquote]
                              @ '' WHERE key=1 LIMIT 10 OFFSET 5''"
      and R = "getPageByFilter scripted number_or_zero dummies (Some ''key=1'') (Some first_ten_after_five)
       None None (start [(None, [[(''id'', JStr ''1'')]]), (None, [[(''count'', JNum 1)]])])"
      and page = "\<lparr>page_data = [[(''id'', JStr ''1'')]], page_total = Some 1\<rparr>"]
  by (simp add: run_defs select_or_star_def order_clause_def where_clause_def first_ten_after_five_def
      number_or_zero_def number_to_string_def digit_def getPageByFilter_def client_defs count_of_def
      get_prop_def map_items_def convertToPublic_def)

subsection \<open>Operations on items\<close>

text \<open>
  C9: in every state of the component, \<open>create\<close> and \<open>set\<close> with a \<open>null\<close> item, \<open>update\<close>
  with a \<open>null\<close> item or an item whose id is \<open>null\<close>, and \<open>updatePartially\<close> with a \<open>null\<close> id
  or \<open>null\<close> data call the callback, when there is one, with a \<open>null\<close> error and a \<open>null\<close>
  item; with or without a callback they send nothing to the driver and leave the world
  of the driver (and the store of objects) as it was.
\<close>

theorem null_arguments_do_nothing:
  "SqlitePersistence_create drv True p None objs e = (Callback None None, objs, e)
   \<and> Identifiable_create drv True nextLong p None objs e = (Callback None None, objs, e)
   \<and> Identifiable_set drv True nextLong p None e = (Callback None None, e)
   \<and> Identifiable_update drv True p None e = (Callback None None, e)
   \<and> (is_null (get_prop item ''id'') \<longrightarrow>
        Identifiable_update drv True p (Some item) e = (Callback None None, e))
   \<and> (is_null id_null \<longrightarrow> updatePartially drv True p id_null data e = (Callback None None, e))
   \<and> updatePartially drv True p id_any None e = (Callback None None, e)
   \<and> snd (SqlitePersistence_create drv False p None objs e) = (objs, e)
   \<and> snd (Identifiable_create drv False nextLong p None objs e) = (objs, e)
   \<and> snd (Identifiable_set drv False nextLong p None e) = e
   \<and> snd (Identifiable_update drv False p None e) = e
   \<and> (is_null (get_prop item ''id'') \<longrightarrow> snd (Identifiable_update drv False p (Some item) e) = e)
   \<and> (is_null id_null \<longrightarrow> snd (updatePartially drv False p id_null data e) = e)
   \<and> snd (updatePartially drv False p id_any None e) = e"
  by (simp add: SqlitePersistence_create_def Identifiable_create_def Identifiable_set_def
      Identifiable_update_def updatePartially_def)

theorem null_arguments_do_nothing_witness:
  "Identifiable_update scripted True dummies (Some [(''key'', JStr ''k'')]) (start [])
     = (Callback None None, start [])
   \<and> updatePartially scripted True dummies JNull (Some [(''key'', JStr ''k'')]) (start [])
     = (Callback None None, start [])
   \<and> snd (Identifiable_update scripted False dummies (Some [(''key'', JStr ''k'')]) (start []))
     = start []
   \<and> snd (updatePartially scripted False dummies JNull (Some [(''key'', JStr ''k'')]) (start []))
     = start []"
  using null_arguments_do_nothing [where item = "[(''key'', JStr ''k'')]" and id_null = JNull
      and drv = scripted and p = dummies and e = "start []" and data = "Some [(''key'', JStr ''k'')]"]
  by (simp add: get_prop_def)

lemma public_or_null_map: "public_or_null result = map_option convertToPublic result"
  by (cases result) (simp_all add: public_or_null_def)

lemma deleteById_none:
  assumes "client p = Some h"
    and "db_get drv h (select_by_id p) [i] (world e) = ((err, None), w)"
  shows "deleteById drv cb p i e
          = (if cb then Callback err None else NoCallback,
             \<lparr>world = w, issued = issued e @ [DbGet h (select_by_id p) [i]]\<rparr>)"
  using assms by (simp add: deleteById_def client_defs public_or_null_def)

lemma deleteById_some:
  assumes "client p = Some h"
    and "db_get drv h (select_by_id p) [i] (world e) = ((err, Some found), w)"
    and "q = ''DELETE FROM '' @ to_string (quoteIdentifier (tableName p)) @ '' WHERE id=?''"
    and "db_run drv h q [i] w = (err', w')"
  shows "deleteById drv cb p i e
          = (if cb then Callback err' (Some (convertToPublic found)) else NoCallback,
             \<lparr>world = w', issued = issued e @ [DbGet h (select_by_id p) [i], DbRun h q [i]]\<rparr>)"
  using assms by (simp add: deleteById_def client_defs public_or_null_def)

lemma set_trace:
  assumes "client p = Some h"
    and "item1 = (if is_null (get_prop item ''id'')
                  then set_prop item ''id'' (JStr nextLong) else item)"
    and "q = ''INSERT INTO '' @ to_string (quoteIdentifier (tableName p))
              @ '' ('' @ generateColumns (Object item1) @ '') VALUES (''
              @ generateParameters (Object item1 :: string js_values) @ '')''
              @ '' ON CONFLICT(id) DO UPDATE SET '' @ generateSetParameters item1"
    and "v = generateValues item1 @ generateValues item1"
    and "db_run drv h q v (world e) = (werr, w)"
    and "db_get drv h (select_by_id p) [get_prop item1 ''id''] w = ((err, result), w')"
  shows "Identifiable_set drv cb nextLong p (Some item) e
          = (if cb then Callback err (map_option convertToPublic result) else NoCallback,
             \<lparr>world = w',
              issued = issued e @ [DbRun h q v, DbGet h (select_by_id p) [get_prop item1 ''id'']]\<rparr>)"
  using assms
  unfolding Identifiable_set_def client_defs convertFromPublic_def Let_def public_or_null_map
  by (simp del: generateParameters.simps)

lemma update_trace:
  assumes "client p = Some h"
    and "\<not> is_null (get_prop item ''id'')"
    and "q = ''UPDATE '' @ to_string (quoteIdentifier (tableName p)) @ '' SET ''
              @ generateSetParameters item @ '' WHERE id=?''"
    and "v = generateValues item @ [get_prop item ''id'']"
    and "db_run drv h q v (world e) = (werr, w)"
    and "db_get drv h (select_by_id p) [get_prop item ''id''] w = ((err, result), w')"
  shows "Identifiable_update drv cb p (Some item) e
          = (if cb then Callback err (map_option convertToPublic result) else NoCallback,
             \<lparr>world = w',
              issued = issued e @ [DbRun h q v, DbGet h (select_by_id p) [get_prop item ''id'']]\<rparr>)"
  using assms
  unfolding Identifiable_update_def client_defs convertFromPublic_def Let_def public_or_null_map
  by simp

lemma updatePartially_trace:
  assumes "client p = Some h"
    and "\<not> is_null i"
    and "q = ''UPDATE '' @ to_string (quoteIdentifier (tableName p)) @ '' SET ''
              @ generateSetParameters data @ '' WHERE id=?''"
    and "v = generateValues data @ [i]"
    and "db_run drv h q v (world e) = (werr, w)"
    and "db_get drv h (select_by_id p) [i] w = ((err, result), w')"
  shows "updatePartially drv cb p i (Some data) e
          = (if cb then Callback err (map_option convertToPublic result) else NoCallback,
             \<lparr>world = w', issued = issued e @ [DbRun h q v, DbGet h (select_by_id p) [i]]\<rparr>)"
  using assms
  unfolding updatePartially_def client_defs convertFromPublic_def convertFromPublicPartial_def
    Let_def public_or_null_map
  by simp

text \<open>
  C5: \<open>set\<close>, \<open>update\<close>, \<open>updatePartially\<close> and \<open>deleteById\<close> send their two statements to
  the one handle of the component in program order. In the first three the \<open>SELECT\<close> by id
  is sent after the \<open>INSERT\<close> or \<open>UPDATE\<close> has completed (it reads the world that the write
  left), and the callback receives the row found then, converted to public format, or
  \<open>null\<close> when there is none. \<open>deleteById\<close> sends its \<open>SELECT\<close> first, and no \<open>DELETE\<close> at all
  when the \<open>SELECT\<close> finds no row. The model runs one operation at a time; calls of other
  operations in between are outside it.
\<close>

theorem two_statements_in_order:
  "client p = Some h \<Longrightarrow>
   select_by_id p = ''SELECT * FROM '' @ to_string (quoteIdentifier (tableName p)) @ '' WHERE id=?''
 \<and> (item_set = (if is_null (get_prop item ''id'') then set_prop item ''id'' (JStr nextLong) else item)
      \<and> q_set = ''INSERT INTO '' @ to_string (quoteIdentifier (tableName p))
              @ '' ('' @ generateColumns (Object item_set) @ '') VALUES (''
              @ generateParameters (Object item_set :: string js_values) @ '')''
              @ '' ON CONFLICT(id) DO UPDATE SET '' @ generateSetParameters item_set
      \<and> v_set = generateValues item_set @ generateValues item_set
      \<and> db_run drv h q_set v_set (world e) = (werr_set, w_set)
      \<and> db_get drv h (select_by_id p) [get_prop item_set ''id''] w_set = ((err_set, result_set), w_set')
    \<longrightarrow> Identifiable_set drv cb nextLong p (Some item) e
          = (if cb then Callback err_set (map_option convertToPublic result_set) else NoCallback,
             \<lparr>world = w_set',
              issued = issued e @ [DbRun h q_set v_set, DbGet h (select_by_id p) [get_prop item_set ''id'']]\<rparr>))
 \<and> (\<not> is_null (get_prop item_upd ''id'')
      \<and> q_upd = ''UPDATE '' @ to_string (quoteIdentifier (tableName p)) @ '' SET ''
              @ generateSetParameters item_upd @ '' WHERE id=?''
      \<and> v_upd = generateValues item_upd @ [get_prop item_upd ''id'']
      \<and> db_run drv h q_upd v_upd (world e) = (werr_upd, w_upd)
      \<and> db_get drv h (select_by_id p) [get_prop item_upd ''id''] w_upd = ((err_upd, result_upd), w_upd')
    \<longrightarrow> Identifiable_update drv cb p (Some item_upd) e
          = (if cb then Callback err_upd (map_option convertToPublic result_upd) else NoCallback,
             \<lparr>world = w_upd',
              issued = issued e @ [DbRun h q_upd v_upd, DbGet h (select_by_id p) [get_prop item_upd ''id'']]\<rparr>))
 \<and> (\<not> is_null id_part
      \<and> q_part = ''UPDATE '' @ to_string (quoteIdentifier (tableName p)) @ '' SET ''
              @ generateSetParameters data @ '' WHERE id=?''
      \<and> v_part = generateValues data @ [id_part]
      \<and> db_run drv h q_part v_part (world e) = (werr_part, w_part)
      \<and> db_get drv h (select_by_id p) [id_part] w_part = ((err_part, result_part), w_part')
    \<longrightarrow> updatePartially drv cb p id_part (Some data) e
          = (if cb then Callback err_part (map_option convertToPublic result_part) else NoCallback,
             \<lparr>world = w_part', issued = issued e @ [DbRun h q_part v_part, DbGet h (select_by_id p) [id_part]]\<rparr>))
 \<and> (db_get drv h (select_by_id p) [id_none] (world e) = ((err_none, None), w_none)
    \<longrightarrow> deleteById drv cb p id_none e
          = (if cb then Callback err_none None else NoCallback,
             \<lparr>world = w_none, issued = issued e @ [DbGet h (select_by_id p) [id_none]]\<rparr>))
 \<and> (db_get drv h (select_by_id p) [id_del] (world e) = ((err_get, Some found), w_get)
      \<and> q_del = ''DELETE FROM '' @ to_string (quoteIdentifier (tableName p)) @ '' WHERE id=?''
      \<and> db_run drv h q_del [id_del] w_get = (err_del, w_del)
    \<longrightarrow> deleteById drv cb p id_del e
          = (if cb then Callback err_del (Some (convertToPublic found)) else NoCallback,
             \<lparr>world = w_del,
              issued = issued e @ [DbGet h (select_by_id p) [id_del], DbRun h q_del [id_del]]\<rparr>))"
  apply (intro conjI impI)
       apply (simp add: select_by_id_def)
      apply (elim conjE, rule set_trace; assumption)
     apply (elim conjE, rule update_trace; assumption)
    apply (elim conjE, rule updatePartially_trace; assumption)
   apply (rule deleteById_none; assumption)
  apply (elim conjE, rule deleteById_some; assumption)
  done

theorem two_statements_in_order_witness:
  "Identifiable_set scripted True ''7'' dummies (Some [(''key'', JStr ''k'')])
       (start [(None, []), (None, [seven])])
     = (Callback None (Some seven),
        \<lparr>world = [],
         issued = [DbRun 1 (''INSERT INTO '' @ [dquote] @ ''dummies'' @ [dquote] @ '' (''
                              @ [dquote] @ ''key'' @ [dquote] @ '','' @ [dquote] @ ''id'' @ [dquote]
                              @ '') VALUES (?,?) ON CONFLICT(id) DO UPDATE SET ''
                              @ [dquote] @ ''key'' @ [dquote] @ ''=?,'' @ [dquote] @ ''id'' @ [dquote] @ ''=?'')
                       [JStr ''k'', JStr ''7'', JStr ''k'', JStr ''7''],
                   DbGet 1 (''SELECT * FROM '' @ [dquote] @ ''dummies'' @ [dquote] @ '' WHERE id=?'')
                       [JStr ''7'']]\<rparr>)
   \<and> Identifiable_update scripted True dummies (Some seven) (start [(None, []), (None, [])])
     = (Callback None None,
        \<lparr>world = [],
         issued = [DbRun 1 (''UPDATE '' @ [dquote] @ ''dummies'' @ [dquote] @ '' SET ''
                              @ [dquote] @ ''id'' @ [dquote] @ ''=?,'' @ [dquote] @ ''key'' @ [dquote]
                              @ ''=? WHERE id=?'')
                       [JStr ''7'', JStr ''k'', JStr ''7''],
                   DbGet 1 (''SELECT * FROM '' @ [dquote] @ ''dummies'' @ [dquote] @ '' WHERE id=?'')
                       [JStr ''7'']]\<rparr>)
   \<and> updatePartially scripted True dummies (JStr ''7'') (Some [(''key'', JStr ''k'')])
       (start [(Some (Error None), []), (None, [seven])])
     = (Callback None (Some seven),
        \<lparr>world = [],
         issued = [DbRun 1 (''UPDATE '' @ [dquote] @ ''dummies'' @ [dquote] @ '' SET ''
                              @ [dquote] @ ''key'' @ [dquote] @ ''=? WHERE id=?'')
                       [JStr ''k'', JStr ''7''],
                   DbGet 1 (''SELECT * FROM '' @ [dquote] @ ''dummies'' @ [dquote] @ '' WHERE id=?'')
                       [JStr ''7'']]\<rparr>)
   \<and> deleteById scripted True dummies (JStr ''7'') (start [(None, [])])
     = (Callback None None,
        \<lparr>world = [],
         issued = [DbGet 1 (''SELECT * FROM '' @ [dquote] @ ''dummies'' @ [dquote] @ '' WHERE id=?'')
                       [JStr ''7'']]\<rparr>)
   \<and> deleteById scripted True dummies (JStr ''7'') (start [(None, [seven]), (None, [])])
     = (Callback None (Some seven),
        \<lparr>world = [],
         issued = [DbGet 1 (''SELECT * FROM '' @ [dquote] @ ''dummies'' @ [dquote] @ '' WHERE id=?'')
                       [JStr ''7''],
                   DbRun 1 (''DELETE FROM '' @ [dquote] @ ''dummies'' @ [dquote] @ '' WHERE id=?'')
                       [JStr ''7'']]\<rparr>)"
proof -
  have c: "client dummies = Some 1"
    by (simp add: dummies_def)
  note t = two_statements_in_order [OF c, where drv = scripted and cb = True]
  note ev = run_defs seven_def Identifiable_set_def Identifiable_update_def updatePartially_def
    deleteById_def client_defs select_by_id_def public_or_null_def convertToPublic_def
    convertFromPublic_def convertFromPublicPartial_def get_prop_def generateColumns_def
    generateSetParameters_def generateValues_def
  have "Identifiable_set scripted True ''7'' dummies (Some [(''key'', JStr ''k'')])
       (start [(None, []), (None, [seven])])
     = (Callback None (Some seven),
        \<lparr>world = [],
         issued = [DbRun 1 (''INSERT INTO '' @ [dquote] @ ''dummies'' @ [dquote] @ '' (''
                              @ [dquote] @ ''key'' @ [dquote] @ '','' @ [dquote] @ ''id'' @ [dquote]
                              @ '') VALUES (?,?) ON CONFLICT(id) DO UPDATE SET ''
                              @ [dquote] @ ''key'' @ [dquote] @ ''=?,'' @ [dquote] @ ''id'' @ [dquote] @ ''=?'')
                       [JStr ''k'', JStr ''7'', JStr ''k'', JStr ''7''],
                   DbGet 1 (''SELECT * FROM '' @ [dquote] @ ''dummies'' @ [dquote] @ '' WHERE id=?'')
                       [JStr ''7'']]\<rparr>)"
    using t [where e = "start [(None, []), (None, [seven])]" and item = "[(''key'', JStr ''k'')]"
        and nextLong = "''7''" and item_set = "[(''key'', JStr ''k''), (''id'', JStr ''7'')]"
        and v_set = "[JStr ''k'', JStr ''7'', JStr ''k'', JStr ''7'']"
        and werr_set = None and w_set = "[(None, [seven])]" and err_set = None
        and result_set = "Some seven" and w_set' = "[]", THEN conjunct2, THEN conjunct1]
    by (simp add: ev)
  moreover
  have "Identifiable_update scripted True dummies (Some seven) (start [(None, []), (None, [])])
     = (Callback None None,
        \<lparr>world = [],
         issued = [DbRun 1 (''UPDATE '' @ [dquote] @ ''dummies'' @ [dquote] @ '' SET ''
                              @ [dquote] @ ''id'' @ [dquote] @ ''=?,'' @ [dquote] @ ''key'' @ [dquote]
                              @ ''=? WHERE id=?'')
                       [JStr ''7'', JStr ''k'', JStr ''7''],
                   DbGet 1 (''SELECT * FROM '' @ [dquote] @ ''dummies'' @ [dquote] @ '' WHERE id=?'')
                       [JStr ''7'']]\<rparr>)"
    using t [where e = "start [(None, []), (None, [])]" and item_upd = seven
        and v_upd = "[JStr ''7'', JStr ''k'', JStr ''7'']"
        and werr_upd = None and w_upd = "[(None, [])]" and err_upd = None
        and result_upd = None and w_upd' = "[]", THEN conjunct2, THEN conjunct2, THEN conjunct1]
    by (simp add: ev)
  moreover
  have "updatePartially scripted True dummies (JStr ''7'') (Some [(''key'', JStr ''k'')])
       (start [(Some (Error None), []), (None, [seven])])
     = (Callback None (Some seven),
        \<lparr>world = [],
         issued = [DbRun 1 (''UPDATE '' @ [dquote] @ ''dummies'' @ [dquote] @ '' SET ''
                              @ [dquote] @ ''key'' @ [dquote] @ ''=? WHERE id=?'')
                       [JStr ''k'', JStr ''7''],
                   DbGet 1 (''SELECT * FROM '' @ [dquote] @ ''dummies'' @ [dquote] @ '' WHERE id=?'')
                       [JStr ''7'']]\<rparr>)"
    using t [where e = "start [(Some (Error None), []), (None, [seven])]" and id_part = "JStr ''7''"
        and data = "[(''key'', JStr ''k'')]" and v_part = "[JStr ''k'', JStr ''7'']"
        and werr_part = "Some (Error None)" and w_part = "[(None, [seven])]" and err_part = None
        and result_part = "Some seven" and w_part' = "[]",
        THEN conjunct2, THEN conjunct2, THEN conjunct2, THEN conjunct1]
    by (simp add: ev)
  moreover
  have "deleteById scripted True dummies (JStr ''7'') (start [(None, [])])
     = (Callback None None,
        \<lparr>world = [],
         issued = [DbGet 1 (''SELECT * FROM '' @ [dquote] @ ''dummies'' @ [dquote] @ '' WHERE id=?'')
                       [JStr ''7'']]\<rparr>)"
    using t [where e = "start [(None, [])]" and id_none = "JStr ''7''" and err_none = None
        and w_none = "[]", THEN conjunct2, THEN conjunct2, THEN conjunct2, THEN conjunct2,
        THEN conjunct1]
    by (simp add: ev)
  moreover
  have "deleteById scripted True dummies (JStr ''7'') (start [(None, [seven]), (None, [])])
     = (Callback None (Some seven),
        \<lparr>world = [],
         issued = [DbGet 1 (''SELECT * FROM '' @ [dquote] @ ''dummies'' @ [dquote] @ '' WHERE id=?'')
                       [JStr ''7''],
                   DbRun 1 (''DELETE FROM '' @ [dquote] @ ''dummies'' @ [dquote] @ '' WHERE id=?'')
                       [JStr ''7'']]\<rparr>)"
    using t [where e = "start [(None, [seven]), (None, [])]" and id_del = "JStr ''7''"
        and err_get = None and found = seven and w_get = "[(None, [])]" and err_del = None
        and w_del = "[]", THEN conjunct2, THEN conjunct2, THEN conjunct2, THEN conjunct2,
        THEN conjunct2]
    by (simp add: ev)
  ultimately show ?thesis
    by (intro conjI)
qed

lemma get_prop_set_prop: "get_prop (set_prop r k v) k = v"
  by (induction r) (auto simp: get_prop_def)

lemma base_create:
  assumes "client p = Some h"
    and "q = ''INSERT INTO '' @ to_string (quoteIdentifier (tableName p))
         @ '' ('' @ generateColumns (Object (objs ! r)) @ '') VALUES (''
         @ generateParameters (Object (objs ! r) :: string js_values) @ '')''"
  shows "SqlitePersistence_create drv cb p (Some r) objs e
       = (if cb then Callback (fst (db_run drv h q (generateValues (objs ! r)) (world e))) (Some r)
          else Throws (TypeError ''callback is not a function''),
          objs,
          \<lparr>world = snd (db_run drv h q (generateValues (objs ! r)) (world e)),
           issued = issued e @ [DbRun h q (generateValues (objs ! r))]\<rparr>)"
  using assms unfolding SqlitePersistence_create_def client_defs convertFromPublic_def Let_def
  by (simp del: generateParameters.simps split: prod.splits)

lemma create_with_id:
  assumes "\<not> is_null (get_prop (objs ! r) ''id'')"
  shows "Identifiable_create drv cb nextLong p (Some r) objs e
           = SqlitePersistence_create drv cb p (Some r) objs e"
  using assms by (simp add: Identifiable_create_def)

lemma is_null_not_truthy: "is_null v \<Longrightarrow> \<not> truthy v"
  by (cases v) auto

lemma create_without_id:
  assumes "is_null (get_prop (objs ! r) ''id'')" and "r < length objs"
  shows "Identifiable_create drv cb nextLong p (Some r) objs e
           = SqlitePersistence_create drv cb p (Some (length objs))
               (objs @ [set_prop (objs ! r) ''id'' (JStr nextLong)]) e"
  using assms by (simp add: Identifiable_create_def clone_def nth_append is_null_not_truthy)

text \<open>
  C8: \<open>IdentifiableSqlitePersistence.create\<close> of an item (an object \<open>r\<close> of the store) whose
  id is \<open>null\<close> gives the generated id to a clone, a new object, and changes no object that
  was in the store, the caller's among them. For every item the object handed to the
  callback is the one that was inserted, the item itself or its clone with the id: its
  reference is fixed before the driver answers, the \<open>INSERT\<close> is the only statement sent,
  and nothing is read back.
\<close>

theorem create_returns_the_item:
  "r < length objs \<Longrightarrow> client p = Some h \<Longrightarrow>
   R = Identifiable_create drv True nextLong p (Some r) objs e \<Longrightarrow>
   newItem = (if is_null (get_prop (objs ! r) ''id'') then length objs else r) \<Longrightarrow>
   objs' = (if is_null (get_prop (objs ! r) ''id'')
            then objs @ [set_prop (objs ! r) ''id'' (JStr nextLong)] else objs) \<Longrightarrow>
   q = ''INSERT INTO '' @ to_string (quoteIdentifier (tableName p))
         @ '' ('' @ generateColumns (Object (objs' ! newItem)) @ '') VALUES (''
         @ generateParameters (Object (objs' ! newItem) :: string js_values) @ '')'' \<Longrightarrow>
     fst (snd R) = objs'
   \<and> take (length objs) (fst (snd R)) = objs
   \<and> fst (snd R) ! r = objs ! r
   \<and> fst R = Callback (fst (db_run drv h q (generateValues (objs' ! newItem)) (world e)))
                       (Some newItem)
   \<and> issued (snd (snd R)) = issued e @ [DbRun h q (generateValues (objs' ! newItem))]
   \<and> (is_null (get_prop (objs ! r) ''id'') \<longrightarrow>
        newItem \<noteq> r \<and> objs' ! newItem = set_prop (objs ! r) ''id'' (JStr nextLong)
        \<and> get_prop (fst (snd R) ! newItem) ''id'' = JStr nextLong)"
proof (cases "is_null (get_prop (objs ! r) ''id'')")
  case True
  assume a: "r < length objs" "client p = Some h"
    "R = Identifiable_create drv True nextLong p (Some r) objs e"
    "newItem = (if is_null (get_prop (objs ! r) ''id'') then length objs else r)"
    "objs' = (if is_null (get_prop (objs ! r) ''id'')
            then objs @ [set_prop (objs ! r) ''id'' (JStr nextLong)] else objs)"
    "q = ''INSERT INTO '' @ to_string (quoteIdentifier (tableName p))
         @ '' ('' @ generateColumns (Object (objs' ! newItem)) @ '') VALUES (''
         @ generateParameters (Object (objs' ! newItem) :: string js_values) @ '')''"
  have n: "newItem = length objs"
    and o: "objs' = objs @ [set_prop (objs ! r) ''id'' (JStr nextLong)]"
    using True a by simp_all
  have R: "R = SqlitePersistence_create drv True p (Some newItem) objs' e"
    using a(3) create_without_id [OF True a(1)] n o by simp
  show ?thesis
    unfolding R base_create [OF a(2) a(6)]
    using True a(1) n o by (simp add: nth_append get_prop_set_prop)
next
  case False
  assume a: "r < length objs" "client p = Some h"
    "R = Identifiable_create drv True nextLong p (Some r) objs e"
    "newItem = (if is_null (get_prop (objs ! r) ''id'') then length objs else r)"
    "objs' = (if is_null (get_prop (objs ! r) ''id'')
            then objs @ [set_prop (objs ! r) ''id'' (JStr nextLong)] else objs)"
    "q = ''INSERT INTO '' @ to_string (quoteIdentifier (tableName p))
         @ '' ('' @ generateColumns (Object (objs' ! newItem)) @ '') VALUES (''
         @ generateParameters (Object (objs' ! newItem) :: string js_values) @ '')''"
  have n: "newItem = r" and o: "objs' = objs"
    using False a by simp_all
  have R: "R = SqlitePersistence_create drv True p (Some newItem) objs' e"
    using a(3) create_with_id [OF False] n o by simp
  show ?thesis
    unfolding R base_create [OF a(2) a(6)]
    using False n o by simp
qed

theorem create_returns_the_item_witness:
  "Identifiable_create scripted True ''7'' dummies (Some 0) [unsaved] (start [(Some (Error None), [])])
     = (Callback (Some (Error None)) (Some 1), [unsaved, unsaved @ [(''id'', JStr ''7'')]],
        \<lparr>world = [],
         issued = [DbRun 1 (''INSERT INTO '' @ [dquote] @ ''dummies'' @ [dquote] @ '' (''
                              @ [dquote] @ ''key'' @ [dquote] @ '','' @ [dquote] @ ''id'' @ [dquote]
                              @ '') VALUES (?,?)'')
                      [JStr ''k'', JStr ''7'']]\<rparr>)
   \<and> Identifiable_create scripted True ''8'' dummies (Some 0) [seven] (start [])
     = (Callback None (Some 0), [seven],
        \<lparr>world = [],
         issued = [DbRun 1 (''INSERT INTO '' @ [dquote] @ ''dummies'' @ [dquote] @ '' (''
                              @ [dquote] @ ''id'' @ [dquote] @ '','' @ [dquote] @ ''key'' @ [dquote]
                              @ '') VALUES (?,?)'')
                      [JStr ''7'', JStr ''k'']]\<rparr>)"
  using create_returns_the_item [where r = 0 and objs = "[unsaved]" and p = dummies and h = 1
      and drv = scripted and nextLong = "''7''" and e = "start [(Some (Error None), [])]"
      and R = "Identifiable_create scripted True ''7'' dummies (Some 0) [unsaved]
                 (start [(Some (Error None), [])])"
      and newItem = 1 and objs' = "[unsaved, unsaved @ [(''id'', JStr ''7'')]]"
      and q = "''INSERT INTO '' @ [dquote] @ ''dummies'' @ [dquote] @ '' (''
                              @ [dquote] @ ''key'' @ [dquote] @ '','' @ [dquote] @ ''id'' @ [dquote]
                              @ '') VALUES (?,?)''"]
    create_returns_the_item [where r = 0 and objs = "[seven]" and p = dummies and h = 1
      and drv = scripted and nextLong = "''8''" and e = "start []"
      and R = "Identifiable_create scripted True ''8'' dummies (Some 0) [seven] (start [])"
      and newItem = 0 and objs' = "[seven]"
      and q = "''INSERT INTO '' @ [dquote] @ ''dummies'' @ [dquote] @ '' (''
                              @ [dquote] @ ''id'' @ [dquote] @ '','' @ [dquote] @ ''key'' @ [dquote]
                              @ '') VALUES (?,?)''"]
  by (simp add: run_defs seven_def unsaved_def Identifiable_create_def SqlitePersistence_create_def
      clone_def client_defs convertFromPublic_def get_prop_def generateColumns_def
      generateValues_def)

end
